theory Spec2Isabelle
  imports Complex_Main "HOL-Library.Multiset"
begin

section \<open>The vendor roll-up job of \<^verbatim>\<open>vendor_cleaning_script.py\<close>\<close>

text \<open>
  The script runs one SQL query (three summarising sub-queries and two left joins), reads
  the result into a pandas DataFrame, converts one column, fills the nulls, trims one text
  column, adds four derived columns and replaces the table \<^verbatim>\<open>vendor_cleaned\<close>.

  Modelling decisions.
  \<^item> A table is the list of its rows. SQL fixes no row order, so the properties below speak
    about the rows of a table (its set or multiset), not about positions.
  \<^item> Numbers of the source tables are real numbers: sums are exact, as for SQL
    \<^verbatim>\<open>numeric\<close>; rounding and overflow of binary floating point are not modelled.
  \<^item> The key columns (\<^verbatim>\<open>VendorNumber\<close>, \<^verbatim>\<open>VendorNo\<close>, \<^verbatim>\<open>Brand\<close>) and the numeric columns
    of the source tables hold no NULL. The text columns \<^verbatim>\<open>VendorName\<close> and
    \<^verbatim>\<open>Description\<close> of \<^verbatim>\<open>purchases\<close> may be NULL (\<open>None\<close>).
  \<^item> \<^verbatim>\<open>Volume\<close> of \<^verbatim>\<open>purchase_prices\<close> is a number or a text: the script converts
    it with \<^verbatim>\<open>astype('float64')\<close>.
  \<^item> A value inside the DataFrame is a float of type \<open>fl\<close> (a real, an infinity or NaN;
    NaN is also pandas' missing value) or, in an object column, a \<open>cell\<close>.
\<close>

subsection \<open>Source tables\<close>

datatype volume = VolNum real | VolText string

record vendor_invoice_row =
  vi_VendorNumber :: int
  vi_Freight :: real

record purchases_row =
  p_VendorNumber :: int
  p_VendorName :: "string option"
  p_Brand :: string
  p_Description :: "string option"
  p_PurchasePrice :: real
  p_Quantity :: real
  p_Dollars :: real

record purchase_prices_row =
  pp_Brand :: string
  pp_Volume :: volume
  pp_Price :: real

record sales_row =
  s_VendorNo :: int
  s_Brand :: string
  s_SalesQuantity :: real
  s_SalesPrice :: real
  s_SalesDollars :: real
  s_ExciseTax :: real

subsection \<open>Relational operators\<close>

text \<open>\<^verbatim>\<open>GROUP BY\<close>: one group per distinct key, holding the rows with that key.\<close>

definition group_by :: "('a \<Rightarrow> 'k) \<Rightarrow> 'a list \<Rightarrow> ('k \<times> 'a list) list" where
  "group_by key xs = map (\<lambda>k. (k, filter (\<lambda>x. key x = k) xs)) (remdups (map key xs))"

text \<open>\<^verbatim>\<open>JOIN ... ON\<close>: every pair of rows that satisfies the condition.\<close>

definition inner_join :: "('a \<Rightarrow> 'b \<Rightarrow> bool) \<Rightarrow> 'a list \<Rightarrow> 'b list \<Rightarrow> ('a \<times> 'b) list" where
  "inner_join on xs ys = concat (map (\<lambda>x. map (Pair x) (filter (on x) ys)) xs)"

text \<open>\<^verbatim>\<open>LEFT JOIN ... ON\<close>: a left row with no partner is kept once, with NULLs
  (\<open>None\<close>) on the right.\<close>

definition left_join :: "('a \<Rightarrow> 'b \<Rightarrow> bool) \<Rightarrow> 'a list \<Rightarrow> 'b list \<Rightarrow> ('a \<times> 'b option) list" where
  "left_join on xs ys =
     concat (map (\<lambda>x. case filter (on x) ys of
                         [] \<Rightarrow> [(x, None)]
                       | ms \<Rightarrow> map (\<lambda>y. (x, Some y)) ms) xs)"

subsection \<open>The query\<close>

record freight_summary_row =
  cs_VendorNumber :: int
  cs_freightcost :: real

definition Freight_summary :: "vendor_invoice_row list \<Rightarrow> freight_summary_row list" where
  "Freight_summary vi =
     map (\<lambda>(v, g). \<lparr>cs_VendorNumber = v, cs_freightcost = sum_list (map vi_Freight g)\<rparr>)
       (group_by vi_VendorNumber vi)"

record purchase_summary_row =
  ps_VendorNumber :: int
  ps_VendorName :: "string option"
  ps_Brand :: string
  ps_Description :: "string option"
  ps_PurchasePrice :: real
  ps_Volume :: volume
  ps_actualprice :: real
  ps_totalpurchasequantity :: real
  ps_totalpurchasedollars :: real

type_synonym purchase_key = "int \<times> string option \<times> string \<times> string option \<times> real \<times> volume \<times> real"

definition purchase_key :: "purchases_row \<times> purchase_prices_row \<Rightarrow> purchase_key" where
  "purchase_key j =
     (p_VendorNumber (fst j), p_VendorName (fst j), p_Brand (fst j), p_Description (fst j),
      p_PurchasePrice (fst j), pp_Volume (snd j), pp_Price (snd j))"

definition purchase_join :: "purchases_row list \<Rightarrow> purchase_prices_row list \<Rightarrow>
    (purchases_row \<times> purchase_prices_row) list" where
  "purchase_join p pp =
     filter (\<lambda>j. p_PurchasePrice (fst j) > 0)
       (inner_join (\<lambda>a b. p_Brand a = pp_Brand b) p pp)"

definition purchase_group :: "purchase_key \<times> (purchases_row \<times> purchase_prices_row) list \<Rightarrow>
    purchase_summary_row" where
  "purchase_group kg =
     (case kg of ((v, n, b, d, pr, vol, ap), g) \<Rightarrow>
        \<lparr>ps_VendorNumber = v, ps_VendorName = n, ps_Brand = b, ps_Description = d,
         ps_PurchasePrice = pr, ps_Volume = vol, ps_actualprice = ap,
         ps_totalpurchasequantity = sum_list (map (\<lambda>j. p_Quantity (fst j)) g),
         ps_totalpurchasedollars = sum_list (map (\<lambda>j. p_Dollars (fst j)) g)\<rparr>)"

definition Purchase_summary :: "purchases_row list \<Rightarrow> purchase_prices_row list \<Rightarrow>
    purchase_summary_row list" where
  "Purchase_summary p pp = map purchase_group (group_by purchase_key (purchase_join p pp))"

record sales_summary_row =
  ss_VendorNo :: int
  ss_Brand :: string
  ss_totalsalesquantity :: real
  ss_totalsalesprice :: real
  ss_totalsalesdollars :: real
  ss_totalexcisetax :: real

definition sales_summary :: "sales_row list \<Rightarrow> sales_summary_row list" where
  "sales_summary s =
     map (\<lambda>(k, g).
            \<lparr>ss_VendorNo = fst k, ss_Brand = snd k,
             ss_totalsalesquantity = sum_list (map s_SalesQuantity g),
             ss_totalsalesprice = sum_list (map s_SalesPrice g),
             ss_totalsalesdollars = sum_list (map s_SalesDollars g),
             ss_totalexcisetax = sum_list (map s_ExciseTax g)\<rparr>)
       (group_by (\<lambda>r. (s_VendorNo r, s_Brand r)) s)"

text \<open>A row of \<^verbatim>\<open>vendor_table\<close>: the columns taken from the two left-joined
  summaries are NULL where the join found no partner.\<close>

record vendor_table_row =
  vt_VendorNumber :: int
  vt_VendorName :: "string option"
  vt_Brand :: string
  vt_Description :: "string option"
  vt_PurchasePrice :: real
  vt_actualprice :: real
  vt_Volume :: volume
  vt_totalpurchasedollars :: real
  vt_totalpurchasequantity :: real
  vt_freightcost :: "real option"
  vt_totalsalesprice :: "real option"
  vt_totalsalesquantity :: "real option"
  vt_totalsalesdollars :: "real option"
  vt_totalexcisetax :: "real option"

definition vendor_select ::
    "(purchase_summary_row \<times> sales_summary_row option) \<times> freight_summary_row option \<Rightarrow>
     vendor_table_row" where
  "vendor_select j =
     (case j of ((ps, ss), cs) \<Rightarrow>
        \<lparr>vt_VendorNumber = ps_VendorNumber ps, vt_VendorName = ps_VendorName ps,
         vt_Brand = ps_Brand ps, vt_Description = ps_Description ps,
         vt_PurchasePrice = ps_PurchasePrice ps, vt_actualprice = ps_actualprice ps,
         vt_Volume = ps_Volume ps,
         vt_totalpurchasedollars = ps_totalpurchasedollars ps,
         vt_totalpurchasequantity = ps_totalpurchasequantity ps,
         vt_freightcost = map_option cs_freightcost cs,
         vt_totalsalesprice = map_option ss_totalsalesprice ss,
         vt_totalsalesquantity = map_option ss_totalsalesquantity ss,
         vt_totalsalesdollars = map_option ss_totalsalesdollars ss,
         vt_totalexcisetax = map_option ss_totalexcisetax ss\<rparr>)"

text \<open>\<^verbatim>\<open>ORDER BY totalpurchasedollars DESC\<close>, as a stable sort on the negated key.\<close>

definition vendor_table ::
    "vendor_invoice_row list \<Rightarrow> purchases_row list \<Rightarrow> purchase_prices_row list \<Rightarrow>
     sales_row list \<Rightarrow> vendor_table_row list" where
  "vendor_table vi p pp s =
     sort_key (\<lambda>r. - vt_totalpurchasedollars r)
       (map vendor_select
          (left_join (\<lambda>a cs. ps_VendorNumber (fst a) = cs_VendorNumber cs)
             (left_join (\<lambda>ps ss. ps_VendorNumber ps = ss_VendorNo ss \<and> ps_Brand ps = ss_Brand ss)
                (Purchase_summary p pp) (sales_summary s))
             (Freight_summary vi)))"

subsection \<open>DataFrame values\<close>

text \<open>A float: a real, an infinity or NaN. Signed zeros, rounding and overflow are not
  modelled; the arithmetic below is IEEE 754 arithmetic in every other respect, as numpy
  applies it to float columns (division by zero gives an infinity or NaN, never an error).\<close>

datatype fl = Fin real | PInf | NInf | NaN

fun fl_neg :: "fl \<Rightarrow> fl" where
  "fl_neg (Fin a) = Fin (- a)"
| "fl_neg PInf = NInf"
| "fl_neg NInf = PInf"
| "fl_neg NaN = NaN"

fun fl_add :: "fl \<Rightarrow> fl \<Rightarrow> fl" where
  "fl_add (Fin a) (Fin b) = Fin (a + b)"
| "fl_add NaN _ = NaN"
| "fl_add _ NaN = NaN"
| "fl_add PInf NInf = NaN"
| "fl_add NInf PInf = NaN"
| "fl_add PInf _ = PInf"
| "fl_add NInf _ = NInf"
| "fl_add _ PInf = PInf"
| "fl_add _ NInf = NInf"

definition fl_sub :: "fl \<Rightarrow> fl \<Rightarrow> fl" where
  "fl_sub x y = fl_add x (fl_neg y)"

text \<open>The sign of a product or quotient with an infinite or zero operand.\<close>

definition fl_signed_inf :: "bool \<Rightarrow> fl" where
  "fl_signed_inf positive = (if positive then PInf else NInf)"

fun fl_mul :: "fl \<Rightarrow> fl \<Rightarrow> fl" where
  "fl_mul (Fin a) (Fin b) = Fin (a * b)"
| "fl_mul NaN _ = NaN"
| "fl_mul _ NaN = NaN"
| "fl_mul (Fin a) PInf = (if a = 0 then NaN else fl_signed_inf (a > 0))"
| "fl_mul (Fin a) NInf = (if a = 0 then NaN else fl_signed_inf (a < 0))"
| "fl_mul PInf (Fin b) = (if b = 0 then NaN else fl_signed_inf (b > 0))"
| "fl_mul NInf (Fin b) = (if b = 0 then NaN else fl_signed_inf (b < 0))"
| "fl_mul PInf PInf = PInf"
| "fl_mul NInf NInf = PInf"
| "fl_mul PInf NInf = NInf"
| "fl_mul NInf PInf = NInf"

fun fl_div :: "fl \<Rightarrow> fl \<Rightarrow> fl" where
  "fl_div (Fin a) (Fin b) =
     (if b \<noteq> 0 then Fin (a / b)
      else if a = 0 then NaN else fl_signed_inf (a > 0))"
| "fl_div NaN _ = NaN"
| "fl_div _ NaN = NaN"
| "fl_div (Fin a) PInf = Fin 0"
| "fl_div (Fin a) NInf = Fin 0"
| "fl_div PInf (Fin b) = fl_signed_inf (b \<ge> 0)"
| "fl_div NInf (Fin b) = fl_signed_inf (b < 0)"
| "fl_div PInf PInf = NaN"
| "fl_div PInf NInf = NaN"
| "fl_div NInf PInf = NaN"
| "fl_div NInf NInf = NaN"

text \<open>An element of an object column: a Python string or a number. \<open>Flt NaN\<close> is the
  missing value (\<^verbatim>\<open>None\<close> or NaN), the one \<^verbatim>\<open>isna\<close> finds.\<close>

datatype cell = Str string | Flt fl

definition of_sql_real :: "real option \<Rightarrow> fl" where
  "of_sql_real x = (case x of None \<Rightarrow> NaN | Some a \<Rightarrow> Fin a)"

definition of_sql_text :: "string option \<Rightarrow> cell" where
  "of_sql_text x = (case x of None \<Rightarrow> Flt NaN | Some s \<Rightarrow> Str s)"

definition of_sql_volume :: "volume \<Rightarrow> cell" where
  "of_sql_volume v = (case v of VolNum a \<Rightarrow> Flt (Fin a) | VolText s \<Rightarrow> Str s)"

subsection \<open>The DataFrame\<close>

record df_row =
  VendorNumber :: int
  VendorName :: cell
  Brand :: string
  Description :: cell
  PurchasePrice :: fl
  actualprice :: fl
  Volume :: cell
  totalpurchasedollars :: fl
  totalpurchasequantity :: fl
  freightcost :: fl
  totalsalesprice :: fl
  totalsalesquantity :: fl
  totalsalesdollars :: fl
  totalexcisetax :: fl

record cleaned_row = df_row +
  GrossProfit :: fl
  ProfitMargin :: fl
  StockTurnover :: fl
  SalesToPurchaseRatio :: fl

text \<open>\<^verbatim>\<open>pd.read_sql(query, engine)\<close>: one DataFrame row per result row, NULL read as
  the missing value.\<close>

definition read_row :: "vendor_table_row \<Rightarrow> df_row" where
  "read_row r =
     \<lparr>VendorNumber = vt_VendorNumber r, VendorName = of_sql_text (vt_VendorName r),
      Brand = vt_Brand r, Description = of_sql_text (vt_Description r),
      PurchasePrice = Fin (vt_PurchasePrice r), actualprice = Fin (vt_actualprice r),
      Volume = of_sql_volume (vt_Volume r),
      totalpurchasedollars = Fin (vt_totalpurchasedollars r),
      totalpurchasequantity = Fin (vt_totalpurchasequantity r),
      freightcost = of_sql_real (vt_freightcost r),
      totalsalesprice = of_sql_real (vt_totalsalesprice r),
      totalsalesquantity = of_sql_real (vt_totalsalesquantity r),
      totalsalesdollars = of_sql_real (vt_totalsalesdollars r),
      totalexcisetax = of_sql_real (vt_totalexcisetax r)\<rparr>"

record database =
  vendor_invoice :: "vendor_invoice_row list"
  purchases :: "purchases_row list"
  purchase_prices :: "purchase_prices_row list"
  sales :: "sales_row list"
  vendor_cleaned :: "cleaned_row list option"

definition read_sql :: "database \<Rightarrow> df_row list" where
  "read_sql db =
     map read_row
       (vendor_table (vendor_invoice db) (purchases db) (purchase_prices db) (sales db))"

datatype error = ValueError | AttributeError

text \<open>\<^verbatim>\<open>df['Volume'].astype('float64')\<close>: a number stays, a string is parsed by
  Python's \<^verbatim>\<open>float\<close>, which is the parameter \<open>to_float\<close> (\<open>None\<close> where
  \<^verbatim>\<open>float\<close> raises \<^verbatim>\<open>ValueError\<close>). One string that does not parse fails the
  whole conversion.\<close>

definition astype_float64 :: "(string \<Rightarrow> fl option) \<Rightarrow> cell \<Rightarrow> fl option" where
  "astype_float64 to_float c = (case c of Flt x \<Rightarrow> Some x | Str s \<Rightarrow> to_float s)"

primrec astype_Volume :: "(string \<Rightarrow> fl option) \<Rightarrow> df_row list \<Rightarrow> error + df_row list" where
  "astype_Volume to_float [] = Inr []"
| "astype_Volume to_float (r # rs) =
     (case astype_float64 to_float (Volume r) of
        None \<Rightarrow> Inl ValueError
      | Some x \<Rightarrow>
          (case astype_Volume to_float rs of
             Inl e \<Rightarrow> Inl e
           | Inr rs' \<Rightarrow> Inr (r\<lparr>Volume := Flt x\<rparr> # rs')))"

text \<open>\<^verbatim>\<open>df.fillna(0, inplace=True)\<close>: every missing value of every column becomes 0.\<close>

definition fillna_fl :: "fl \<Rightarrow> fl" where
  "fillna_fl x = (if x = NaN then Fin 0 else x)"

definition fillna_cell :: "cell \<Rightarrow> cell" where
  "fillna_cell c = (if c = Flt NaN then Flt (Fin 0) else c)"

definition fillna :: "df_row \<Rightarrow> df_row" where
  "fillna r =
     \<lparr>VendorNumber = VendorNumber r, VendorName = fillna_cell (VendorName r),
      Brand = Brand r, Description = fillna_cell (Description r),
      PurchasePrice = fillna_fl (PurchasePrice r), actualprice = fillna_fl (actualprice r),
      Volume = fillna_cell (Volume r),
      totalpurchasedollars = fillna_fl (totalpurchasedollars r),
      totalpurchasequantity = fillna_fl (totalpurchasequantity r),
      freightcost = fillna_fl (freightcost r),
      totalsalesprice = fillna_fl (totalsalesprice r),
      totalsalesquantity = fillna_fl (totalsalesquantity r),
      totalsalesdollars = fillna_fl (totalsalesdollars r),
      totalexcisetax = fillna_fl (totalexcisetax r)\<rparr>"

text \<open>\<^verbatim>\<open>df['VendorName'].str.strip()\<close>.

  The \<^verbatim>\<open>.str\<close> accessor raises \<^verbatim>\<open>AttributeError\<close> unless the column, its missing
  values set aside, is empty or holds at least one string (pandas infers one of
  \<^verbatim>\<open>string\<close>, \<^verbatim>\<open>empty\<close>, \<^verbatim>\<open>mixed\<close>, \<^verbatim>\<open>mixed-integer\<close>). \<^verbatim>\<open>strip\<close> then
  trims the white space around every string and, as its documentation says, replaces
  every element that is not a string by NaN. A character of a \<open>string\<close> is a code point
  below 256; \<open>isspace\<close> lists the code points below 256 for which Python's
  \<^verbatim>\<open>str.isspace\<close> holds. Strings with code points from 256 on are outside the model.\<close>

definition isspace :: "char \<Rightarrow> bool" where
  "isspace c = (c \<in> set [CHR 0x09, CHR 0x0A, CHR 0x0B, CHR 0x0C, CHR 0x0D,
                          CHR 0x1C, CHR 0x1D, CHR 0x1E, CHR 0x1F, CHR 0x20,
                          CHR 0x85, CHR 0xA0])"

definition strip :: "string \<Rightarrow> string" where
  "strip s = rev (dropWhile isspace (rev (dropWhile isspace s)))"

definition is_str :: "cell \<Rightarrow> bool" where
  "is_str c = (case c of Str s \<Rightarrow> True | Flt x \<Rightarrow> False)"

definition str_accessor_ok :: "cell list \<Rightarrow> bool" where
  "str_accessor_ok col = (filter (\<lambda>c. c \<noteq> Flt NaN) col = [] \<or> list_ex is_str col)"

definition str_strip :: "cell \<Rightarrow> cell" where
  "str_strip c = (case c of Str s \<Rightarrow> Str (strip s) | Flt x \<Rightarrow> Flt NaN)"

definition strip_row :: "df_row \<Rightarrow> df_row" where
  "strip_row r = r\<lparr>VendorName := str_strip (VendorName r)\<rparr>"

definition strip_VendorName :: "df_row list \<Rightarrow> error + df_row list" where
  "strip_VendorName df =
     (if str_accessor_ok (map VendorName df) then Inr (map strip_row df)
      else Inl AttributeError)"

text \<open>The four added columns, in the order of the script: each is computed from columns
  that are already there.\<close>

definition add_columns :: "df_row \<Rightarrow> cleaned_row" where
  "add_columns r =
     (let gross = fl_sub (totalsalesdollars r) (totalpurchasedollars r)
      in df_row.extend r
           \<lparr>GrossProfit = gross,
            ProfitMargin = fl_mul (fl_div gross (totalsalesdollars r)) (Fin 100),
            StockTurnover = fl_div (totalsalesquantity r) (totalpurchasequantity r),
            SalesToPurchaseRatio = fl_div (totalsalesdollars r) (totalpurchasedollars r)\<rparr>)"

text \<open>Lines 67 to 84: the DataFrame as it is handed to \<^verbatim>\<open>to_sql\<close>, or the exception
  that ends the script.\<close>

definition cleaned ::
    "(string \<Rightarrow> fl option) \<Rightarrow> database \<Rightarrow> error + cleaned_row list" where
  "cleaned to_float db =
     (case astype_Volume to_float (read_sql db) of
        Inl e \<Rightarrow> Inl e
      | Inr df \<Rightarrow>
          (case strip_VendorName (map fillna df) of
             Inl e \<Rightarrow> Inl e
           | Inr df' \<Rightarrow> Inr (map add_columns df')))"

text \<open>The whole script: \<^verbatim>\<open>to_sql(..., if_exists="replace")\<close> replaces the table
  \<^verbatim>\<open>vendor_cleaned\<close>; an exception before it leaves the database as it was.\<close>

definition vendor_cleaning_script ::
    "(string \<Rightarrow> fl option) \<Rightarrow> database \<Rightarrow> error + database" where
  "vendor_cleaning_script to_float db =
     (case cleaned to_float db of
        Inl e \<Rightarrow> Inl e
      | Inr df \<Rightarrow> Inr (db\<lparr>vendor_cleaned := Some df\<rparr>))"

subsection \<open>Views used in the proofs\<close>

text \<open>The partner that a left join finds for a row of \<^verbatim>\<open>Purchase_summary\<close>: the first
  matching row of the other summary, if there is one. Each summary has one row per key,
  so the first partner is the only one.\<close>

definition sales_partner :: "sales_row list \<Rightarrow> purchase_summary_row \<Rightarrow> sales_summary_row option" where
  "sales_partner s ps =
     (case filter (\<lambda>ss. ps_VendorNumber ps = ss_VendorNo ss \<and> ps_Brand ps = ss_Brand ss)
             (sales_summary s) of
        [] \<Rightarrow> None | y # _ \<Rightarrow> Some y)"

definition freight_partner ::
    "vendor_invoice_row list \<Rightarrow> purchase_summary_row \<Rightarrow> freight_summary_row option" where
  "freight_partner vi ps =
     (case filter (\<lambda>cs. ps_VendorNumber ps = cs_VendorNumber cs) (Freight_summary vi) of
        [] \<Rightarrow> None | y # _ \<Rightarrow> Some y)"

definition vendor_row ::
    "vendor_invoice_row list \<Rightarrow> sales_row list \<Rightarrow> purchase_summary_row \<Rightarrow> vendor_table_row" where
  "vendor_row vi s ps = vendor_select ((ps, sales_partner s ps), freight_partner vi ps)"

text \<open>What the conversion of \<^verbatim>\<open>Volume\<close> does to one row when it succeeds.\<close>

definition astype_row :: "(string \<Rightarrow> fl option) \<Rightarrow> df_row \<Rightarrow> df_row" where
  "astype_row to_float r =
     r\<lparr>Volume := Flt (case astype_float64 to_float (Volume r) of None \<Rightarrow> NaN | Some x \<Rightarrow> x)\<rparr>"

definition clean_row :: "(string \<Rightarrow> fl option) \<Rightarrow> vendor_table_row \<Rightarrow> cleaned_row" where
  "clean_row to_float r = add_columns (strip_row (fillna (astype_row to_float (read_row r))))"

text \<open>\<^verbatim>\<open>isna\<close> on one row: some column holds the missing value. \<^verbatim>\<open>VendorNumber\<close> and
  \<^verbatim>\<open>Brand\<close> cannot (see the modelling decisions).\<close>

definition has_na :: "df_row \<Rightarrow> bool" where
  "has_na r \<longleftrightarrow>
     VendorName r = Flt NaN \<or> Description r = Flt NaN \<or> Volume r = Flt NaN \<or>
     PurchasePrice r = NaN \<or> actualprice r = NaN \<or>
     totalpurchasedollars r = NaN \<or> totalpurchasequantity r = NaN \<or> freightcost r = NaN \<or>
     totalsalesprice r = NaN \<or> totalsalesquantity r = NaN \<or> totalsalesdollars r = NaN \<or>
     totalexcisetax r = NaN"

subsection \<open>Quantities the properties compare with\<close>

text \<open>The values of a float column, added up.\<close>

definition fl_sum :: "fl list \<Rightarrow> fl" where
  "fl_sum xs = foldr fl_add xs (Fin 0)"

text \<open>The sum of a column over all rows of \<^verbatim>\<open>purchases\<close> with the given
  \<^verbatim>\<open>VendorNumber\<close> and \<^verbatim>\<open>Brand\<close> and with \<^verbatim>\<open>PurchasePrice > 0\<close>.\<close>

definition purchase_total :: "(purchases_row \<Rightarrow> real) \<Rightarrow> purchases_row list \<Rightarrow> int \<Rightarrow> string \<Rightarrow> real" where
  "purchase_total h p v b =
     sum_list (map h (filter (\<lambda>x. p_VendorNumber x = v \<and> p_Brand x = b \<and> p_PurchasePrice x > 0) p))"

text \<open>The grouping key of a row of the query's result, and how often a purchase row is
  counted in the totals of such a row: the number of rows of \<^verbatim>\<open>purchase_prices\<close> that
  the join pairs it with, that pass the \<^verbatim>\<open>WHERE\<close> filter with it and that fall with it
  into the group of that row.\<close>

definition vendor_key :: "vendor_table_row \<Rightarrow> purchase_key" where
  "vendor_key t =
     (vt_VendorNumber t, vt_VendorName t, vt_Brand t, vt_Description t, vt_PurchasePrice t,
      vt_Volume t, vt_actualprice t)"

definition times_counted :: "purchase_prices_row list \<Rightarrow> purchases_row \<Rightarrow> vendor_table_row \<Rightarrow> nat" where
  "times_counted pp x t =
     length (filter (\<lambda>y. p_Brand x = pp_Brand y \<and> p_PurchasePrice x > 0 \<and>
                         purchase_key (x, y) = vendor_key t) pp)"

text \<open>The rows of \<^verbatim>\<open>purchases\<close> that fall into the group of a row of the query's result,
  and the rows of \<^verbatim>\<open>purchase_prices\<close> that the join pairs each of them with.\<close>

definition group_purchases :: "purchases_row list \<Rightarrow> vendor_table_row \<Rightarrow> purchases_row list" where
  "group_purchases p t =
     filter (\<lambda>x. p_VendorNumber x = vt_VendorNumber t \<and> p_VendorName x = vt_VendorName t \<and>
                 p_Brand x = vt_Brand t \<and> p_Description x = vt_Description t \<and>
                 p_PurchasePrice x = vt_PurchasePrice t) p"

definition group_prices :: "purchase_prices_row list \<Rightarrow> vendor_table_row \<Rightarrow> purchase_prices_row list" where
  "group_prices pp t =
     filter (\<lambda>y. pp_Brand y = vt_Brand t \<and> pp_Volume y = vt_Volume t \<and>
                 pp_Price y = vt_actualprice t) pp"

subsection \<open>Example databases\<close>

text \<open>A stand-in for Python's \<^verbatim>\<open>float\<close> on the examples: it parses the one text
  that occurs in them.\<close>

definition float_750 :: "string \<Rightarrow> fl option" where
  "float_750 s = (if s = ''750'' then Some (Fin 750) else None)"

text \<open>Vendor 1 buys two brands and sells one of them; vendor 2 has no name, no sale and no
  invoice; vendor 3 has only a purchase at price 0; vendor 4 bought nothing at a positive
  price.\<close>

definition db_example :: database where
  "db_example =
     \<lparr>vendor_invoice = [\<lparr>vi_VendorNumber = 1, vi_Freight = 5\<rparr>, \<lparr>vi_VendorNumber = 1, vi_Freight = 7\<rparr>],
      purchases =
        [\<lparr>p_VendorNumber = 1, p_VendorName = Some ''ACME  '', p_Brand = ''A'',
          p_Description = Some ''Gin'', p_PurchasePrice = 5, p_Quantity = 10, p_Dollars = 50\<rparr>,
         \<lparr>p_VendorNumber = 1, p_VendorName = Some ''ACME  '', p_Brand = ''A'',
          p_Description = Some ''Gin'', p_PurchasePrice = 5, p_Quantity = 10, p_Dollars = 50\<rparr>,
         \<lparr>p_VendorNumber = 1, p_VendorName = Some ''ACME  '', p_Brand = ''B'',
          p_Description = Some ''Rum'', p_PurchasePrice = 4, p_Quantity = 5, p_Dollars = 20\<rparr>,
         \<lparr>p_VendorNumber = 2, p_VendorName = None, p_Brand = ''A'',
          p_Description = Some ''Gin'', p_PurchasePrice = 5, p_Quantity = 1, p_Dollars = 5\<rparr>,
         \<lparr>p_VendorNumber = 3, p_VendorName = Some ''Zed'', p_Brand = ''A'',
          p_Description = Some ''Gin'', p_PurchasePrice = 0, p_Quantity = 3, p_Dollars = 0\<rparr>,
         \<lparr>p_VendorNumber = 4, p_VendorName = Some ''Nil'', p_Brand = ''B'',
          p_Description = None, p_PurchasePrice = 4, p_Quantity = 0, p_Dollars = 0\<rparr>],
      purchase_prices =
        [\<lparr>pp_Brand = ''A'', pp_Volume = VolText ''750'', pp_Price = 12\<rparr>,
         \<lparr>pp_Brand = ''B'', pp_Volume = VolNum 1000, pp_Price = 9\<rparr>],
      sales = [\<lparr>s_VendorNo = 1, s_Brand = ''A'', s_SalesQuantity = 8, s_SalesPrice = 12,
                s_SalesDollars = 96, s_ExciseTax = 1\<rparr>,
               \<lparr>s_VendorNo = 1, s_Brand = ''A'', s_SalesQuantity = 2, s_SalesPrice = 12,
                s_SalesDollars = 24, s_ExciseTax = 1\<rparr>],
      vendor_cleaned = None\<rparr>"

definition row_1A :: cleaned_row where
  "row_1A =
     \<lparr>VendorNumber = 1, VendorName = Str ''ACME'', Brand = ''A'', Description = Str ''Gin'',
      PurchasePrice = Fin 5, actualprice = Fin 12, Volume = Flt (Fin 750),
      totalpurchasedollars = Fin 100, totalpurchasequantity = Fin 20, freightcost = Fin 12,
      totalsalesprice = Fin 24, totalsalesquantity = Fin 10, totalsalesdollars = Fin 120,
      totalexcisetax = Fin 2, GrossProfit = Fin 20, ProfitMargin = Fin (50 / 3),
      StockTurnover = Fin (1 / 2), SalesToPurchaseRatio = Fin (6 / 5)\<rparr>"

definition row_1B :: cleaned_row where
  "row_1B =
     \<lparr>VendorNumber = 1, VendorName = Str ''ACME'', Brand = ''B'', Description = Str ''Rum'',
      PurchasePrice = Fin 4, actualprice = Fin 9, Volume = Flt (Fin 1000),
      totalpurchasedollars = Fin 20, totalpurchasequantity = Fin 5, freightcost = Fin 12,
      totalsalesprice = Fin 0, totalsalesquantity = Fin 0, totalsalesdollars = Fin 0,
      totalexcisetax = Fin 0, GrossProfit = Fin (- 20), ProfitMargin = NInf,
      StockTurnover = Fin 0, SalesToPurchaseRatio = Fin 0\<rparr>"

definition row_2A :: cleaned_row where
  "row_2A =
     \<lparr>VendorNumber = 2, VendorName = Flt NaN, Brand = ''A'', Description = Str ''Gin'',
      PurchasePrice = Fin 5, actualprice = Fin 12, Volume = Flt (Fin 750),
      totalpurchasedollars = Fin 5, totalpurchasequantity = Fin 1, freightcost = Fin 0,
      totalsalesprice = Fin 0, totalsalesquantity = Fin 0, totalsalesdollars = Fin 0,
      totalexcisetax = Fin 0, GrossProfit = Fin (- 5), ProfitMargin = NInf,
      StockTurnover = Fin 0, SalesToPurchaseRatio = Fin 0\<rparr>"

definition row_4B :: cleaned_row where
  "row_4B =
     \<lparr>VendorNumber = 4, VendorName = Str ''Nil'', Brand = ''B'', Description = Flt (Fin 0),
      PurchasePrice = Fin 4, actualprice = Fin 9, Volume = Flt (Fin 1000),
      totalpurchasedollars = Fin 0, totalpurchasequantity = Fin 0, freightcost = Fin 0,
      totalsalesprice = Fin 0, totalsalesquantity = Fin 0, totalsalesdollars = Fin 0,
      totalexcisetax = Fin 0, GrossProfit = Fin 0, ProfitMargin = NaN,
      StockTurnover = NaN, SalesToPurchaseRatio = NaN\<rparr>"

text \<open>A purchase of a brand that \<^verbatim>\<open>purchase_prices\<close> does not list.\<close>

definition db_unlisted :: database where
  "db_unlisted =
     \<lparr>vendor_invoice = [],
      purchases = [\<lparr>p_VendorNumber = 1, p_VendorName = Some ''ACME'', p_Brand = ''Z'',
                    p_Description = Some ''Gin'', p_PurchasePrice = 5, p_Quantity = 10,
                    p_Dollars = 50\<rparr>],
      purchase_prices = [\<lparr>pp_Brand = ''A'', pp_Volume = VolText ''750'', pp_Price = 12\<rparr>],
      sales = [],
      vendor_cleaned = None\<rparr>"

text \<open>One purchase, of a vendor without a name.\<close>

definition db_nameless :: database where
  "db_nameless =
     \<lparr>vendor_invoice = [],
      purchases = [\<lparr>p_VendorNumber = 2, p_VendorName = None, p_Brand = ''A'',
                    p_Description = Some ''Gin'', p_PurchasePrice = 5, p_Quantity = 1,
                    p_Dollars = 5\<rparr>],
      purchase_prices = [\<lparr>pp_Brand = ''A'', pp_Volume = VolText ''750'', pp_Price = 12\<rparr>],
      sales = [],
      vendor_cleaned = None\<rparr>"

text \<open>One brand bought at two prices, listed twice in \<^verbatim>\<open>purchase_prices\<close>, and a brand
  that is not listed.\<close>

definition db_counted :: database where
  "db_counted =
     \<lparr>vendor_invoice = [],
      purchases =
        [\<lparr>p_VendorNumber = 1, p_VendorName = Some ''ACME'', p_Brand = ''A'',
          p_Description = Some ''Gin'', p_PurchasePrice = 5, p_Quantity = 10, p_Dollars = 50\<rparr>,
         \<lparr>p_VendorNumber = 1, p_VendorName = Some ''ACME'', p_Brand = ''A'',
          p_Description = Some ''Gin'', p_PurchasePrice = 6, p_Quantity = 10, p_Dollars = 60\<rparr>,
         \<lparr>p_VendorNumber = 1, p_VendorName = Some ''ACME'', p_Brand = ''Z'',
          p_Description = Some ''Rum'', p_PurchasePrice = 7, p_Quantity = 1, p_Dollars = 7\<rparr>],
      purchase_prices =
        [\<lparr>pp_Brand = ''A'', pp_Volume = VolText ''750'', pp_Price = 12\<rparr>,
         \<lparr>pp_Brand = ''A'', pp_Volume = VolText ''750'', pp_Price = 12\<rparr>],
      sales = [],
      vendor_cleaned = None\<rparr>"

definition query_row_6 :: vendor_table_row where
  "query_row_6 =
     \<lparr>vt_VendorNumber = 1, vt_VendorName = Some ''ACME'', vt_Brand = ''A'',
      vt_Description = Some ''Gin'', vt_PurchasePrice = 6, vt_actualprice = 12,
      vt_Volume = VolText ''750'', vt_totalpurchasedollars = 120, vt_totalpurchasequantity = 20,
      vt_freightcost = None, vt_totalsalesprice = None, vt_totalsalesquantity = None,
      vt_totalsalesdollars = None, vt_totalexcisetax = None\<rparr>"

definition query_row_5 :: vendor_table_row where
  "query_row_5 =
     \<lparr>vt_VendorNumber = 1, vt_VendorName = Some ''ACME'', vt_Brand = ''A'',
      vt_Description = Some ''Gin'', vt_PurchasePrice = 5, vt_actualprice = 12,
      vt_Volume = VolText ''750'', vt_totalpurchasedollars = 100, vt_totalpurchasequantity = 20,
      vt_freightcost = None, vt_totalsalesprice = None, vt_totalsalesquantity = None,
      vt_totalsalesdollars = None, vt_totalexcisetax = None\<rparr>"

definition row_6 :: cleaned_row where
  "row_6 =
     \<lparr>VendorNumber = 1, VendorName = Str ''ACME'', Brand = ''A'', Description = Str ''Gin'',
      PurchasePrice = Fin 6, actualprice = Fin 12, Volume = Flt (Fin 750),
      totalpurchasedollars = Fin 120, totalpurchasequantity = Fin 20, freightcost = Fin 0,
      totalsalesprice = Fin 0, totalsalesquantity = Fin 0, totalsalesdollars = Fin 0,
      totalexcisetax = Fin 0, GrossProfit = Fin (- 120), ProfitMargin = NInf,
      StockTurnover = Fin 0, SalesToPurchaseRatio = Fin 0\<rparr>"

definition row_5 :: cleaned_row where
  "row_5 =
     \<lparr>VendorNumber = 1, VendorName = Str ''ACME'', Brand = ''A'', Description = Str ''Gin'',
      PurchasePrice = Fin 5, actualprice = Fin 12, Volume = Flt (Fin 750),
      totalpurchasedollars = Fin 100, totalpurchasequantity = Fin 20, freightcost = Fin 0,
      totalsalesprice = Fin 0, totalsalesquantity = Fin 0, totalsalesdollars = Fin 0,
      totalexcisetax = Fin 0, GrossProfit = Fin (- 100), ProfitMargin = NInf,
      StockTurnover = Fin 0, SalesToPurchaseRatio = Fin 0\<rparr>"

text \<open>One brand, listed once, bought by one vendor at two prices.\<close>

definition db_two_prices :: database where
  "db_two_prices =
     \<lparr>vendor_invoice = [],
      purchases =
        [\<lparr>p_VendorNumber = 1, p_VendorName = Some ''ACME'', p_Brand = ''A'',
          p_Description = Some ''Gin'', p_PurchasePrice = 5, p_Quantity = 10, p_Dollars = 50\<rparr>,
         \<lparr>p_VendorNumber = 1, p_VendorName = Some ''ACME'', p_Brand = ''A'',
          p_Description = Some ''Gin'', p_PurchasePrice = 6, p_Quantity = 10, p_Dollars = 60\<rparr>],
      purchase_prices = [\<lparr>pp_Brand = ''A'', pp_Volume = VolText ''750'', pp_Price = 12\<rparr>],
      sales = [],
      vendor_cleaned = None\<rparr>"

definition row_60 :: cleaned_row where
  "row_60 =
     \<lparr>VendorNumber = 1, VendorName = Str ''ACME'', Brand = ''A'', Description = Str ''Gin'',
      PurchasePrice = Fin 6, actualprice = Fin 12, Volume = Flt (Fin 750),
      totalpurchasedollars = Fin 60, totalpurchasequantity = Fin 10, freightcost = Fin 0,
      totalsalesprice = Fin 0, totalsalesquantity = Fin 0, totalsalesdollars = Fin 0,
      totalexcisetax = Fin 0, GrossProfit = Fin (- 60), ProfitMargin = NInf,
      StockTurnover = Fin 0, SalesToPurchaseRatio = Fin 0\<rparr>"

definition row_50 :: cleaned_row where
  "row_50 =
     \<lparr>VendorNumber = 1, VendorName = Str ''ACME'', Brand = ''A'', Description = Str ''Gin'',
      PurchasePrice = Fin 5, actualprice = Fin 12, Volume = Flt (Fin 750),
      totalpurchasedollars = Fin 50, totalpurchasequantity = Fin 10, freightcost = Fin 0,
      totalsalesprice = Fin 0, totalsalesquantity = Fin 0, totalsalesdollars = Fin 0,
      totalexcisetax = Fin 0, GrossProfit = Fin (- 50), ProfitMargin = NInf,
      StockTurnover = Fin 0, SalesToPurchaseRatio = Fin 0\<rparr>"

text \<open>The example database with the rows of two tables in another order and with an older
  result in \<^verbatim>\<open>vendor_cleaned\<close>.\<close>

definition db_shuffled :: database where
  "db_shuffled =
     db_example\<lparr>purchases := rev (purchases db_example), sales := rev (sales db_example),
                vendor_cleaned := Some [row_4B]\<rparr>"

text \<open>The purchase of vendor 3 in \<open>db_example\<close>, at price 0, and the one row of
  \<^verbatim>\<open>purchase_prices\<close> for its brand; the purchase of brand A at price 6 and the purchase
  of the unlisted brand Z in \<open>db_counted\<close>.\<close>

definition purchase_free :: purchases_row where
  "purchase_free =
     \<lparr>p_VendorNumber = 3, p_VendorName = Some ''Zed'', p_Brand = ''A'',
      p_Description = Some ''Gin'', p_PurchasePrice = 0, p_Quantity = 3, p_Dollars = 0\<rparr>"

definition price_A :: purchase_prices_row where
  "price_A = \<lparr>pp_Brand = ''A'', pp_Volume = VolText ''750'', pp_Price = 12\<rparr>"

definition purchase_6 :: purchases_row where
  "purchase_6 =
     \<lparr>p_VendorNumber = 1, p_VendorName = Some ''ACME'', p_Brand = ''A'',
      p_Description = Some ''Gin'', p_PurchasePrice = 6, p_Quantity = 10, p_Dollars = 60\<rparr>"

definition purchase_Z :: purchases_row where
  "purchase_Z =
     \<lparr>p_VendorNumber = 1, p_VendorName = Some ''ACME'', p_Brand = ''Z'',
      p_Description = Some ''Rum'', p_PurchasePrice = 7, p_Quantity = 1, p_Dollars = 7\<rparr>"

section \<open>Properties\<close>

subsection \<open>Grouping and joining\<close>

lemma group_by_set:
  "set (group_by key xs) = (\<lambda>k. (k, filter (\<lambda>x. key x = k) xs)) ` key ` set xs"
  by (simp add: group_by_def)

lemma filter_eq_distinct:
  "distinct ys \<Longrightarrow> filter (\<lambda>x. x = k) ys = (if k \<in> set ys then [k] else [])"
  by (induction ys) auto

lemma group_by_filter_key:
  "filter (\<lambda>kg. fst kg = k) (group_by key xs) =
     (if k \<in> key ` set xs then [(k, filter (\<lambda>x. key x = k) xs)] else [])"
  by (simp add: group_by_def filter_map comp_def filter_eq_distinct)

lemma left_join_unique:
  "(\<And>x. x \<in> set xs \<Longrightarrow> length (filter (on x) ys) \<le> 1) \<Longrightarrow>
   left_join on xs ys =
     map (\<lambda>x. (x, case filter (on x) ys of [] \<Rightarrow> None | y # _ \<Rightarrow> Some y)) xs"
proof (induction xs)
  case Nil
  show ?case by (simp add: left_join_def)
next
  case (Cons x xs)
  have "length (filter (on x) ys) \<le> 1"
    using Cons.prems by simp
  then have "(case filter (on x) ys of [] \<Rightarrow> [(x, None)] | ms \<Rightarrow> map (\<lambda>y. (x, Some y)) ms)
          = [(x, case filter (on x) ys of [] \<Rightarrow> None | y # _ \<Rightarrow> Some y)]"
    by (cases "filter (on x) ys") auto
  moreover have "left_join on xs ys =
     map (\<lambda>x. (x, case filter (on x) ys of [] \<Rightarrow> None | y # _ \<Rightarrow> Some y)) xs"
    using Cons by simp
  ultimately show ?case
    by (simp add: left_join_def)
qed

lemma Freight_summary_filter:
  "filter (\<lambda>c. v = cs_VendorNumber c) (Freight_summary vi) =
     (if v \<in> vi_VendorNumber ` set vi
      then [\<lparr>cs_VendorNumber = v,
             cs_freightcost = sum_list (map vi_Freight (filter (\<lambda>i. vi_VendorNumber i = v) vi))\<rparr>]
      else [])"
proof -
  have "filter (\<lambda>c. v = cs_VendorNumber c) (Freight_summary vi) =
        map (\<lambda>(v, g). \<lparr>cs_VendorNumber = v, cs_freightcost = sum_list (map vi_Freight g)\<rparr>)
          (filter (\<lambda>kg. fst kg = v) (group_by vi_VendorNumber vi))"
    unfolding Freight_summary_def filter_map
    by (rule arg_cong [where f = "map _"], rule filter_cong) (auto simp: comp_def)
  then show ?thesis
    by (simp add: group_by_filter_key)
qed

lemma sales_summary_filter:
  "filter (\<lambda>c. v = ss_VendorNo c \<and> b = ss_Brand c) (sales_summary s) =
     (if (v, b) \<in> (\<lambda>r. (s_VendorNo r, s_Brand r)) ` set s
      then [\<lparr>ss_VendorNo = v, ss_Brand = b,
             ss_totalsalesquantity = sum_list (map s_SalesQuantity (filter (\<lambda>r. (s_VendorNo r, s_Brand r) = (v, b)) s)),
             ss_totalsalesprice = sum_list (map s_SalesPrice (filter (\<lambda>r. (s_VendorNo r, s_Brand r) = (v, b)) s)),
             ss_totalsalesdollars = sum_list (map s_SalesDollars (filter (\<lambda>r. (s_VendorNo r, s_Brand r) = (v, b)) s)),
             ss_totalexcisetax = sum_list (map s_ExciseTax (filter (\<lambda>r. (s_VendorNo r, s_Brand r) = (v, b)) s))\<rparr>]
      else [])"
proof -
  have "filter (\<lambda>c. v = ss_VendorNo c \<and> b = ss_Brand c) (sales_summary s) =
        map (\<lambda>(k, g).
            \<lparr>ss_VendorNo = fst k, ss_Brand = snd k,
             ss_totalsalesquantity = sum_list (map s_SalesQuantity g),
             ss_totalsalesprice = sum_list (map s_SalesPrice g),
             ss_totalsalesdollars = sum_list (map s_SalesDollars g),
             ss_totalexcisetax = sum_list (map s_ExciseTax g)\<rparr>)
          (filter (\<lambda>kg. fst kg = (v, b)) (group_by (\<lambda>r. (s_VendorNo r, s_Brand r)) s))"
    unfolding sales_summary_def filter_map
    by (rule arg_cong [where f = "map _"], rule filter_cong) (auto simp: comp_def)
  then show ?thesis
    by (simp add: group_by_filter_key)
qed

lemma sales_summary_unique:
  "length (filter (\<lambda>c. v = ss_VendorNo c \<and> b = ss_Brand c) (sales_summary s)) \<le> 1"
  by (simp only: sales_summary_filter split: if_splits) simp

lemma Freight_summary_unique:
  "length (filter (\<lambda>c. v = cs_VendorNumber c) (Freight_summary vi)) \<le> 1"
  by (simp only: Freight_summary_filter split: if_splits) simp

lemma vendor_table_eq:
  "vendor_table vi p pp s =
     sort_key (\<lambda>r. - vt_totalpurchasedollars r) (map (vendor_row vi s) (Purchase_summary p pp))"
proof -
  have 1: "left_join (\<lambda>ps ss. ps_VendorNumber ps = ss_VendorNo ss \<and> ps_Brand ps = ss_Brand ss)
                (Purchase_summary p pp) (sales_summary s)
         = map (\<lambda>ps. (ps, sales_partner s ps)) (Purchase_summary p pp)"
    unfolding sales_partner_def
    by (rule left_join_unique) (rule sales_summary_unique)
  have 2: "left_join (\<lambda>a cs. ps_VendorNumber (fst a) = cs_VendorNumber cs) xs (Freight_summary vi)
         = map (\<lambda>a. (a, freight_partner vi (fst a))) xs" for xs :: "(purchase_summary_row \<times> sales_summary_row option) list"
    unfolding freight_partner_def
    by (rule left_join_unique) (rule Freight_summary_unique)
  show ?thesis
    unfolding vendor_table_def 1 2
    by (simp add: comp_def vendor_row_def [abs_def])
qed

lemma vendor_table_set:
  "set (vendor_table vi p pp s) = vendor_row vi s ` set (Purchase_summary p pp)"
  by (simp add: vendor_table_eq)

lemma freight_partner_eq:
  "freight_partner vi ps =
     (if ps_VendorNumber ps \<in> vi_VendorNumber ` set vi
      then Some \<lparr>cs_VendorNumber = ps_VendorNumber ps,
             cs_freightcost = sum_list (map vi_Freight (filter (\<lambda>i. vi_VendorNumber i = ps_VendorNumber ps) vi))\<rparr>
      else None)"
  by (simp add: freight_partner_def Freight_summary_filter)

lemma sales_partner_None:
  "sales_partner s ps = None \<longleftrightarrow>
     (\<forall>r\<in>set s. \<not> (s_VendorNo r = ps_VendorNumber ps \<and> s_Brand r = ps_Brand ps))"
  by (auto simp add: sales_partner_def sales_summary_filter image_iff)

lemma astype_Volume_eq:
  "astype_Volume to_float df =
     (if \<forall>r\<in>set df. astype_float64 to_float (Volume r) \<noteq> None
      then Inr (map (astype_row to_float) df) else Inl ValueError)"
  by (induction df) (auto simp: astype_row_def split: option.splits sum.splits)

lemma cleaned_eq:
  "cleaned to_float db =
     (if \<exists>r\<in>set (read_sql db). astype_float64 to_float (Volume r) = None then Inl ValueError
      else if \<not> str_accessor_ok (map (\<lambda>r. VendorName (fillna (astype_row to_float r))) (read_sql db))
      then Inl AttributeError
      else Inr (map (clean_row to_float)
             (vendor_table (vendor_invoice db) (purchases db) (purchase_prices db) (sales db))))"
  by (auto simp: cleaned_def astype_Volume_eq strip_VendorName_def clean_row_def [abs_def] read_sql_def comp_def)

lemma cleaned_Inr:
  "cleaned to_float db = Inr out \<Longrightarrow>
     out = map (clean_row to_float)
             (vendor_table (vendor_invoice db) (purchases db) (purchase_prices db) (sales db))"
  by (simp add: cleaned_eq split: if_splits)

lemma fillna_fl_simps [simp]:
  "fillna_fl (Fin a) = Fin a" "fillna_fl NaN = Fin 0" "fillna_fl PInf = PInf" "fillna_fl NInf = NInf"
  by (simp_all add: fillna_fl_def)

lemma fillna_of_sql_real: "fillna_fl (of_sql_real x) = Fin (case x of None \<Rightarrow> 0 | Some a \<Rightarrow> a)"
  by (cases x) (simp_all add: of_sql_real_def)

lemma clean_row_keys:
  "VendorNumber (clean_row to_float r) = vt_VendorNumber r"
  "Brand (clean_row to_float r) = vt_Brand r"
  "VendorName (clean_row to_float r) = str_strip (fillna_cell (of_sql_text (vt_VendorName r)))"
  "Description (clean_row to_float r) = fillna_cell (of_sql_text (vt_Description r))"
  by (simp_all add: clean_row_def add_columns_def strip_row_def fillna_def astype_row_def read_row_def
      df_row.defs Let_def)

lemma clean_row_totals:
  "totalpurchasedollars (clean_row to_float r) = Fin (vt_totalpurchasedollars r)"
  "totalpurchasequantity (clean_row to_float r) = Fin (vt_totalpurchasequantity r)"
  "PurchasePrice (clean_row to_float r) = Fin (vt_PurchasePrice r)"
  "actualprice (clean_row to_float r) = Fin (vt_actualprice r)"
  "freightcost (clean_row to_float r) = fillna_fl (of_sql_real (vt_freightcost r))"
  "totalsalesprice (clean_row to_float r) = fillna_fl (of_sql_real (vt_totalsalesprice r))"
  "totalsalesquantity (clean_row to_float r) = fillna_fl (of_sql_real (vt_totalsalesquantity r))"
  "totalsalesdollars (clean_row to_float r) = fillna_fl (of_sql_real (vt_totalsalesdollars r))"
  "totalexcisetax (clean_row to_float r) = fillna_fl (of_sql_real (vt_totalexcisetax r))"
  by (simp_all add: clean_row_def add_columns_def strip_row_def fillna_def astype_row_def read_row_def
      df_row.defs Let_def)

lemma clean_row_derived:
  "GrossProfit (clean_row to_float r) =
     fl_sub (totalsalesdollars (clean_row to_float r)) (totalpurchasedollars (clean_row to_float r))"
  "ProfitMargin (clean_row to_float r) =
     fl_mul (fl_div (GrossProfit (clean_row to_float r)) (totalsalesdollars (clean_row to_float r))) (Fin 100)"
  "StockTurnover (clean_row to_float r) =
     fl_div (totalsalesquantity (clean_row to_float r)) (totalpurchasequantity (clean_row to_float r))"
  "SalesToPurchaseRatio (clean_row to_float r) =
     fl_div (totalsalesdollars (clean_row to_float r)) (totalpurchasedollars (clean_row to_float r))"
  by (simp_all add: clean_row_def add_columns_def strip_row_def fillna_def astype_row_def read_row_def
      df_row.defs Let_def)

lemma vendor_row_keys:
  "vt_VendorNumber (vendor_row vi s ps) = ps_VendorNumber ps"
  "vt_VendorName (vendor_row vi s ps) = ps_VendorName ps"
  "vt_Brand (vendor_row vi s ps) = ps_Brand ps"
  "vt_Description (vendor_row vi s ps) = ps_Description ps"
  "vt_PurchasePrice (vendor_row vi s ps) = ps_PurchasePrice ps"
  "vt_actualprice (vendor_row vi s ps) = ps_actualprice ps"
  "vt_Volume (vendor_row vi s ps) = ps_Volume ps"
  "vt_totalpurchasedollars (vendor_row vi s ps) = ps_totalpurchasedollars ps"
  "vt_totalpurchasequantity (vendor_row vi s ps) = ps_totalpurchasequantity ps"
  by (simp_all add: vendor_row_def vendor_select_def)

lemma vendor_row_freight:
  "vt_freightcost (vendor_row vi s ps) =
     (if ps_VendorNumber ps \<in> vi_VendorNumber ` set vi
      then Some (sum_list (map vi_Freight (filter (\<lambda>i. vi_VendorNumber i = ps_VendorNumber ps) vi)))
      else None)"
  by (simp add: vendor_row_def vendor_select_def freight_partner_eq)

lemma vendor_row_no_sales:
  "sales_partner s ps = None \<Longrightarrow>
     vt_totalsalesprice (vendor_row vi s ps) = None \<and>
     vt_totalsalesquantity (vendor_row vi s ps) = None \<and>
     vt_totalsalesdollars (vendor_row vi s ps) = None \<and>
     vt_totalexcisetax (vendor_row vi s ps) = None"
  by (simp add: vendor_row_def vendor_select_def)

lemma sum_list_filter_none:
  "v \<notin> f ` set xs \<Longrightarrow> filter (\<lambda>i. f i = v) xs = []"
  by (auto simp: filter_empty_conv)

lemma freightcost_clean:
  "freightcost (clean_row to_float (vendor_row vi s ps)) =
     Fin (sum_list (map vi_Freight (filter (\<lambda>i. vi_VendorNumber i = ps_VendorNumber ps) vi)))"
  by (simp add: clean_row_totals vendor_row_freight of_sql_real_def sum_list_filter_none)

lemma cleaned_row_cases:
  assumes "cleaned to_float db = Inr out" "r \<in> set out"
  obtains ps where "ps \<in> set (Purchase_summary (purchases db) (purchase_prices db))"
    and "r = clean_row to_float (vendor_row (vendor_invoice db) (sales db) ps)"
  using assms by (auto simp: vendor_table_set dest!: cleaned_Inr)

subsection \<open>The examples, evaluated\<close>

lemmas query_defs =
  vendor_table_def Purchase_summary_def purchase_join_def inner_join_def left_join_def
  group_by_def purchase_key_def purchase_group_def sales_summary_def Freight_summary_def
  vendor_select_def

lemmas pandas_defs =
  cleaned_def read_sql_def read_row_def of_sql_real_def of_sql_text_def of_sql_volume_def
  astype_float64_def fillna_def fillna_fl_def fillna_cell_def strip_VendorName_def
  str_accessor_ok_def is_str_def str_strip_def strip_row_def strip_def isspace_def
  add_columns_def df_row.defs fl_sub_def fl_signed_inf_def Let_def

lemmas row_defs = row_1A_def row_1B_def row_2A_def row_4B_def

lemma cleaned_example: "cleaned float_750 db_example = Inr [row_1A, row_1B, row_2A, row_4B]"
  by (simp add: db_example_def row_defs float_750_def query_defs pandas_defs)

subsection \<open>Rows of the purchase summary\<close>

lemma Purchase_summary_from_join:
  assumes "ps \<in> set (Purchase_summary p pp)"
  obtains j where "j \<in> set (purchase_join p pp)"
    and "ps = purchase_group (purchase_key j, filter (\<lambda>x. purchase_key x = purchase_key j) (purchase_join p pp))"
  using assms by (auto simp: Purchase_summary_def group_by_set)

lemma purchase_join_mem:
  "j \<in> set (purchase_join p pp) \<longleftrightarrow>
     fst j \<in> set p \<and> snd j \<in> set pp \<and> p_Brand (fst j) = pp_Brand (snd j) \<and> p_PurchasePrice (fst j) > 0"
  by (cases j) (auto simp: purchase_join_def inner_join_def)

lemma purchase_group_sel:
  "ps_VendorNumber (purchase_group (purchase_key j, g)) = p_VendorNumber (fst j)"
  "ps_VendorName (purchase_group (purchase_key j, g)) = p_VendorName (fst j)"
  "ps_Brand (purchase_group (purchase_key j, g)) = p_Brand (fst j)"
  "ps_Description (purchase_group (purchase_key j, g)) = p_Description (fst j)"
  "ps_PurchasePrice (purchase_group (purchase_key j, g)) = p_PurchasePrice (fst j)"
  "ps_Volume (purchase_group (purchase_key j, g)) = pp_Volume (snd j)"
  "ps_actualprice (purchase_group (purchase_key j, g)) = pp_Price (snd j)"
  "ps_totalpurchasequantity (purchase_group (purchase_key j, g)) = sum_list (map (\<lambda>j. p_Quantity (fst j)) g)"
  "ps_totalpurchasedollars (purchase_group (purchase_key j, g)) = sum_list (map (\<lambda>j. p_Dollars (fst j)) g)"
  by (simp_all add: purchase_group_def purchase_key_def)

subsection \<open>Freight, missing partners and the price filter\<close>

text \<open>Claim C3. When the script completes, every output row of vendor \<open>v\<close> carries the
  same \<^verbatim>\<open>freightcost\<close>: the sum of \<^verbatim>\<open>Freight\<close> over all rows of
  \<^verbatim>\<open>vendor_invoice\<close> with \<^verbatim>\<open>VendorNumber\<close> \<open>v\<close>.\<close>

theorem freight_broadcast:
  assumes "cleaned to_float db = Inr out"
  shows "\<forall>r\<in>set out. VendorNumber r = v \<longrightarrow>
           freightcost r =
             Fin (sum_list (map vi_Freight (filter (\<lambda>i. vi_VendorNumber i = v) (vendor_invoice db))))"
proof (intro ballI impI)
  fix r assume "r \<in> set out" and v: "VendorNumber r = v"
  from assms \<open>r \<in> set out\<close> obtain ps
    where r: "r = clean_row to_float (vendor_row (vendor_invoice db) (sales db) ps)"
    by (rule cleaned_row_cases)
  from v have "ps_VendorNumber ps = v"
    by (simp add: r clean_row_keys vendor_row_keys)
  then show "freightcost r =
      Fin (sum_list (map vi_Freight (filter (\<lambda>i. vi_VendorNumber i = v) (vendor_invoice db))))"
    by (simp add: r freightcost_clean)
qed

theorem freight_broadcast_witness:
  "cleaned float_750 db_example = Inr [row_1A, row_1B, row_2A, row_4B] \<and>
   freightcost row_1A = Fin 12 \<and> freightcost row_1B = Fin 12 \<and>
   sum_list (map vi_Freight (filter (\<lambda>i. vi_VendorNumber i = 1) (vendor_invoice db_example))) = 12"
proof -
  have "freightcost row_1A = Fin 12 \<and> freightcost row_1B = Fin 12 \<and>
    sum_list (map vi_Freight (filter (\<lambda>i. vi_VendorNumber i = 1) (vendor_invoice db_example))) = 12"
    using freight_broadcast [OF cleaned_example, of 1]
    by (simp add: row_defs db_example_def)
  with cleaned_example show ?thesis by (rule conjI)
qed

text \<open>Claim C4. An output row whose (\<^verbatim>\<open>VendorNumber\<close>, \<^verbatim>\<open>Brand\<close>) has no row in
  \<^verbatim>\<open>sales\<close> has the four sales totals equal to 0 (not null), and an output row whose
  vendor has no row in \<^verbatim>\<open>vendor_invoice\<close> has \<^verbatim>\<open>freightcost\<close> 0.\<close>

theorem missing_aggregates_zero:
  assumes "cleaned to_float db = Inr out" and "r \<in> set out"
  shows "((\<forall>x\<in>set (sales db). \<not> (s_VendorNo x = VendorNumber r \<and> s_Brand x = Brand r)) \<longrightarrow>
            totalsalesquantity r = Fin 0 \<and> totalsalesprice r = Fin 0 \<and>
            totalsalesdollars r = Fin 0 \<and> totalexcisetax r = Fin 0) \<and>
         ((\<forall>i\<in>set (vendor_invoice db). vi_VendorNumber i \<noteq> VendorNumber r) \<longrightarrow>
            freightcost r = Fin 0)"
proof -
  from assms obtain ps where r: "r = clean_row to_float (vendor_row (vendor_invoice db) (sales db) ps)"
    by (rule cleaned_row_cases)
  have keys: "VendorNumber r = ps_VendorNumber ps" "Brand r = ps_Brand ps"
    by (simp_all add: r clean_row_keys vendor_row_keys)
  have "totalsalesquantity r = Fin 0 \<and> totalsalesprice r = Fin 0 \<and>
        totalsalesdollars r = Fin 0 \<and> totalexcisetax r = Fin 0"
    if "\<forall>x\<in>set (sales db). \<not> (s_VendorNo x = VendorNumber r \<and> s_Brand x = Brand r)"
  proof -
    from that have "sales_partner (sales db) ps = None"
      by (simp add: sales_partner_None keys)
    then show ?thesis
      by (simp add: r clean_row_totals vendor_row_no_sales of_sql_real_def)
  qed
  moreover have "freightcost r = Fin 0"
    if "\<forall>i\<in>set (vendor_invoice db). vi_VendorNumber i \<noteq> VendorNumber r"
  proof -
    from that have "filter (\<lambda>i. vi_VendorNumber i = ps_VendorNumber ps) (vendor_invoice db) = []"
      by (auto simp: filter_empty_conv keys)
    then show ?thesis
      by (simp add: r freightcost_clean)
  qed
  ultimately show ?thesis by blast
qed

theorem missing_aggregates_zero_witness:
  "row_2A \<in> set [row_1A, row_1B, row_2A, row_4B] \<and>
   list_all (\<lambda>x. \<not> (s_VendorNo x = VendorNumber row_2A \<and> s_Brand x = Brand row_2A)) (sales db_example) \<and>
   list_all (\<lambda>i. vi_VendorNumber i \<noteq> VendorNumber row_2A) (vendor_invoice db_example) \<and>
   totalsalesquantity row_2A = Fin 0 \<and> totalsalesprice row_2A = Fin 0 \<and>
   totalsalesdollars row_2A = Fin 0 \<and> totalexcisetax row_2A = Fin 0 \<and> freightcost row_2A = Fin 0"
  using missing_aggregates_zero [OF cleaned_example, of row_2A]
  by (simp add: row_defs db_example_def)

text \<open>Claim C5. A (\<^verbatim>\<open>VendorNumber\<close>, \<^verbatim>\<open>Brand\<close>) pair all of whose purchase rows
  have \<^verbatim>\<open>PurchasePrice\<close> at most 0 has no output row.\<close>

theorem filter_exclusion:
  assumes "cleaned to_float db = Inr out"
    and "\<forall>x\<in>set (purchases db). p_VendorNumber x = v \<and> p_Brand x = b \<longrightarrow> p_PurchasePrice x \<le> 0"
  shows "\<not> (\<exists>r\<in>set out. VendorNumber r = v \<and> Brand r = b)"
proof
  assume "\<exists>r\<in>set out. VendorNumber r = v \<and> Brand r = b"
  then obtain r where "r \<in> set out" and vb: "VendorNumber r = v" "Brand r = b"
    by blast
  with assms(1) obtain ps where ps: "ps \<in> set (Purchase_summary (purchases db) (purchase_prices db))"
    and r: "r = clean_row to_float (vendor_row (vendor_invoice db) (sales db) ps)"
    by (auto elim: cleaned_row_cases)
  from ps obtain j where j: "j \<in> set (purchase_join (purchases db) (purchase_prices db))"
    and g: "ps = purchase_group (purchase_key j,
              filter (\<lambda>x. purchase_key x = purchase_key j) (purchase_join (purchases db) (purchase_prices db)))"
    by (rule Purchase_summary_from_join)
  from vb have "p_VendorNumber (fst j) = v" "p_Brand (fst j) = b"
    by (simp_all add: r g clean_row_keys vendor_row_keys purchase_group_sel)
  moreover from j have "fst j \<in> set (purchases db)" "p_PurchasePrice (fst j) > 0"
    by (simp_all add: purchase_join_mem)
  ultimately show False
    using assms(2) by fastforce
qed

theorem filter_exclusion_witness:
  "list_ex (\<lambda>x. p_VendorNumber x = 3 \<and> p_Brand x = ''A'') (purchases db_example) \<and>
   \<not> (\<exists>r\<in>set [row_1A, row_1B, row_2A, row_4B]. VendorNumber r = 3 \<and> Brand r = ''A'')"
  using filter_exclusion [OF cleaned_example, of 3 "''A''"]
  by (simp add: db_example_def)

subsection \<open>Derived metrics\<close>

lemma fl_div_zero: "fl_div x (Fin 0) \<in> {PInf, NInf, NaN}"
  by (cases x) (simp_all add: fl_signed_inf_def)

lemma fl_mul_100: "x \<in> {PInf, NInf, NaN} \<Longrightarrow> fl_mul x (Fin 100) \<in> {PInf, NInf, NaN}"
  by (auto simp: fl_signed_inf_def)

text \<open>Claim C7. In an output row whose divisor is zero (\<^verbatim>\<open>totalsalesdollars\<close> for
  \<^verbatim>\<open>ProfitMargin\<close>, \<^verbatim>\<open>totalpurchasequantity\<close> for \<^verbatim>\<open>StockTurnover\<close>,
  \<^verbatim>\<open>totalpurchasedollars\<close> for \<^verbatim>\<open>SalesToPurchaseRatio\<close>) the metric is an infinity or
  NaN: no finite value stands in for it.\<close>

theorem division_by_zero_not_finite:
  assumes "cleaned to_float db = Inr out" and "r \<in> set out"
  shows "(totalsalesdollars r = Fin 0 \<longrightarrow> ProfitMargin r \<in> {PInf, NInf, NaN}) \<and>
         (totalpurchasequantity r = Fin 0 \<longrightarrow> StockTurnover r \<in> {PInf, NInf, NaN}) \<and>
         (totalpurchasedollars r = Fin 0 \<longrightarrow> SalesToPurchaseRatio r \<in> {PInf, NInf, NaN})"
proof -
  from assms obtain ps where r: "r = clean_row to_float (vendor_row (vendor_invoice db) (sales db) ps)"
    by (rule cleaned_row_cases)
  have "ProfitMargin r \<in> {PInf, NInf, NaN}" if "totalsalesdollars r = Fin 0"
  proof -
    have "ProfitMargin r = fl_mul (fl_div (GrossProfit r) (Fin 0)) (Fin 100)"
      using that unfolding r by (simp only: clean_row_derived(2))
    then show ?thesis
      using fl_mul_100 [OF fl_div_zero] by simp
  qed
  moreover have "StockTurnover r \<in> {PInf, NInf, NaN}" if "totalpurchasequantity r = Fin 0"
  proof -
    have "StockTurnover r = fl_div (totalsalesquantity r) (Fin 0)"
      using that unfolding r by (simp only: clean_row_derived(3))
    then show ?thesis
      using fl_div_zero by simp
  qed
  moreover have "SalesToPurchaseRatio r \<in> {PInf, NInf, NaN}" if "totalpurchasedollars r = Fin 0"
  proof -
    have "SalesToPurchaseRatio r = fl_div (totalsalesdollars r) (Fin 0)"
      using that unfolding r by (simp only: clean_row_derived(4))
    then show ?thesis
      using fl_div_zero by simp
  qed
  ultimately show ?thesis by blast
qed

theorem division_by_zero_not_finite_witness:
  "row_4B \<in> set [row_1A, row_1B, row_2A, row_4B] \<and>
   totalsalesdollars row_4B = Fin 0 \<and> totalpurchasequantity row_4B = Fin 0 \<and>
   totalpurchasedollars row_4B = Fin 0 \<and>
   ProfitMargin row_4B \<in> {PInf, NInf, NaN} \<and> StockTurnover row_4B \<in> {PInf, NInf, NaN} \<and>
   SalesToPurchaseRatio row_4B \<in> {PInf, NInf, NaN}"
  using division_by_zero_not_finite [OF cleaned_example, of row_4B]
  by (simp add: row_4B_def)

text \<open>Claim C10. In an output row with no matching row in \<^verbatim>\<open>sales\<close> the purchase totals
  are finite and: \<^verbatim>\<open>StockTurnover\<close> is 0 when \<^verbatim>\<open>totalpurchasequantity\<close> is positive;
  \<^verbatim>\<open>SalesToPurchaseRatio\<close> is 0 and \<^verbatim>\<open>ProfitMargin\<close> is minus infinity when
  \<^verbatim>\<open>totalpurchasedollars\<close> is positive.\<close>

theorem metrics_without_sales:
  assumes "cleaned to_float db = Inr out" and "r \<in> set out"
    and "\<forall>x\<in>set (sales db). \<not> (s_VendorNo x = VendorNumber r \<and> s_Brand x = Brand r)"
  shows "\<exists>q d. totalpurchasequantity r = Fin q \<and> totalpurchasedollars r = Fin d \<and>
           (q > 0 \<longrightarrow> StockTurnover r = Fin 0) \<and>
           (d > 0 \<longrightarrow> SalesToPurchaseRatio r = Fin 0 \<and> ProfitMargin r = NInf)"
proof -
  from assms(1,2) obtain ps where r: "r = clean_row to_float (vendor_row (vendor_invoice db) (sales db) ps)"
    by (rule cleaned_row_cases)
  have keys: "VendorNumber r = ps_VendorNumber ps" "Brand r = ps_Brand ps"
    by (simp_all add: r clean_row_keys vendor_row_keys)
  from assms(3) have "sales_partner (sales db) ps = None"
    by (simp add: sales_partner_None keys)
  then have zero: "totalsalesquantity r = Fin 0" "totalsalesdollars r = Fin 0"
    by (simp_all add: r clean_row_totals vendor_row_no_sales of_sql_real_def)
  define q where "q = vt_totalpurchasequantity (vendor_row (vendor_invoice db) (sales db) ps)"
  define d where "d = vt_totalpurchasedollars (vendor_row (vendor_invoice db) (sales db) ps)"
  have fin: "totalpurchasequantity r = Fin q" "totalpurchasedollars r = Fin d"
    by (simp_all add: r q_def d_def clean_row_totals)
  have st: "StockTurnover r = fl_div (Fin 0) (Fin q)"
    using zero fin unfolding r by (simp only: clean_row_derived(3))
  have sp: "SalesToPurchaseRatio r = fl_div (Fin 0) (Fin d)"
    using zero fin unfolding r by (simp only: clean_row_derived(4))
  have gp: "GrossProfit r = fl_sub (Fin 0) (Fin d)"
    using zero fin unfolding r by (simp only: clean_row_derived(1))
  have pm: "ProfitMargin r = fl_mul (fl_div (fl_sub (Fin 0) (Fin d)) (Fin 0)) (Fin 100)"
    using zero gp unfolding r by (simp only: clean_row_derived(2))
  have "q > 0 \<longrightarrow> StockTurnover r = Fin 0"
    by (simp add: st)
  moreover have "d > 0 \<longrightarrow> SalesToPurchaseRatio r = Fin 0 \<and> ProfitMargin r = NInf"
    by (simp add: sp pm fl_sub_def fl_signed_inf_def)
  ultimately show ?thesis
    using fin by blast
qed

theorem metrics_without_sales_witness:
  "row_1B \<in> set [row_1A, row_1B, row_2A, row_4B] \<and>
   list_all (\<lambda>x. \<not> (s_VendorNo x = VendorNumber row_1B \<and> s_Brand x = Brand row_1B)) (sales db_example) \<and>
   totalpurchasequantity row_1B = Fin 5 \<and> totalpurchasedollars row_1B = Fin 20 \<and>
   StockTurnover row_1B = Fin 0 \<and> SalesToPurchaseRatio row_1B = Fin 0 \<and> ProfitMargin row_1B = NInf"
  using metrics_without_sales [OF cleaned_example, of row_1B]
  by (simp add: row_1B_def db_example_def)

subsection \<open>What is persisted\<close>

lemma script_unlisted:
  "vendor_cleaning_script float_750 db_unlisted = Inr (db_unlisted\<lparr>vendor_cleaned := Some []\<rparr>)"
  by (simp add: vendor_cleaning_script_def db_unlisted_def query_defs pandas_defs)

lemma script_nameless: "vendor_cleaning_script float_750 db_nameless = Inl AttributeError"
  by (simp add: vendor_cleaning_script_def db_nameless_def float_750_def query_defs pandas_defs)

lemma script_example:
  "vendor_cleaning_script float_750 db_example =
     Inr (db_example\<lparr>vendor_cleaned := Some [row_1A, row_1B, row_2A, row_4B]\<rparr>)"
  by (simp add: vendor_cleaning_script_def cleaned_example)

lemma script_Inr:
  "vendor_cleaning_script to_float db = Inr db' \<longleftrightarrow>
     (\<exists>out. cleaned to_float db = Inr out \<and> db' = db\<lparr>vendor_cleaned := Some out\<rparr>)"
  by (auto simp: vendor_cleaning_script_def split: sum.splits)

text \<open>A purchase at a positive price whose brand is listed has its group in the output.\<close>

lemma purchase_has_row:
  assumes "cleaned to_float db = Inr out"
    and "x \<in> set (purchases db)" "p_PurchasePrice x > 0"
    and "y \<in> set (purchase_prices db)" "pp_Brand y = p_Brand x"
  shows "\<exists>r\<in>set out. VendorNumber r = p_VendorNumber x \<and> Brand r = p_Brand x \<and>
           VendorName r = str_strip (fillna_cell (of_sql_text (p_VendorName x)))"
proof -
  let ?J = "purchase_join (purchases db) (purchase_prices db)"
  let ?ps = "purchase_group (purchase_key (x, y), filter (\<lambda>j. purchase_key j = purchase_key (x, y)) ?J)"
  let ?r = "clean_row to_float (vendor_row (vendor_invoice db) (sales db) ?ps)"
  have "(x, y) \<in> set ?J"
    using assms(2-5) by (simp add: purchase_join_mem)
  then have "?ps \<in> set (Purchase_summary (purchases db) (purchase_prices db))"
    by (auto simp: Purchase_summary_def group_by_set)
  then have "?r \<in> set out"
    using cleaned_Inr [OF assms(1)] by (simp add: vendor_table_set)
  moreover have "VendorNumber ?r = p_VendorNumber x" "Brand ?r = p_Brand x"
    "VendorName ?r = str_strip (fillna_cell (of_sql_text (p_VendorName x)))"
    using purchase_group_sel [of "(x, y)"] by (simp_all add: clean_row_keys vendor_row_keys)
  ultimately show ?thesis by blast
qed

text \<open>Claim C2, amended. When the script completes, every (\<^verbatim>\<open>VendorNumber\<close>,
  \<^verbatim>\<open>Brand\<close>) pair with at least one purchase row with \<^verbatim>\<open>PurchasePrice > 0\<close> whose
  \<^verbatim>\<open>Brand\<close> occurs in \<^verbatim>\<open>purchase_prices\<close> has a row in the persisted table.\<close>

theorem listed_pairs_persisted:
  assumes "vendor_cleaning_script to_float db = Inr db'"
    and "x \<in> set (purchases db)" "p_PurchasePrice x > 0"
    and "y \<in> set (purchase_prices db)" "pp_Brand y = p_Brand x"
  shows "\<exists>out. vendor_cleaned db' = Some out \<and>
           (\<exists>r\<in>set out. VendorNumber r = p_VendorNumber x \<and> Brand r = p_Brand x)"
proof -
  from assms(1) obtain out where out: "cleaned to_float db = Inr out"
    and db': "db' = db\<lparr>vendor_cleaned := Some out\<rparr>"
    by (auto simp: script_Inr)
  from purchase_has_row [OF out assms(2-5)] db' show ?thesis
    by auto
qed

theorem listed_pairs_persisted_witness:
  "vendor_cleaning_script float_750 db_example =
     Inr (db_example\<lparr>vendor_cleaned := Some [row_1A, row_1B, row_2A, row_4B]\<rparr>) \<and>
   (\<exists>r\<in>set [row_1A, row_1B, row_2A, row_4B]. VendorNumber r = 1 \<and> Brand r = ''B'')"
proof -
  let ?x = "\<lparr>p_VendorNumber = 1, p_VendorName = Some ''ACME  '', p_Brand = ''B'',
          p_Description = Some ''Rum'', p_PurchasePrice = 4, p_Quantity = 5, p_Dollars = 20\<rparr>"
  let ?y = "\<lparr>pp_Brand = ''B'', pp_Volume = VolNum 1000, pp_Price = 9\<rparr>"
  have "?x \<in> set (purchases db_example)" "p_PurchasePrice ?x > 0"
    "?y \<in> set (purchase_prices db_example)" "pp_Brand ?y = p_Brand ?x"
    by (simp_all add: db_example_def)
  from listed_pairs_persisted [OF script_example this]
  have "\<exists>r\<in>set [row_1A, row_1B, row_2A, row_4B]. VendorNumber r = 1 \<and> Brand r = ''B''"
    by simp
  with script_example show ?thesis by (rule conjI)
qed

text \<open>Claim C2 as stated fails: the purchase of brand Z has a positive price, the script
  completes, and the persisted table is empty.\<close>

theorem unlisted_brand_counterexample:
  "vendor_cleaning_script float_750 db_unlisted = Inr (db_unlisted\<lparr>vendor_cleaned := Some []\<rparr>) \<and>
   list_ex (\<lambda>x. p_VendorNumber x = 1 \<and> p_Brand x = ''Z'' \<and> p_PurchasePrice x > 0) (purchases db_unlisted)"
proof -
  have "list_ex (\<lambda>x. p_VendorNumber x = 1 \<and> p_Brand x = ''Z'' \<and> p_PurchasePrice x > 0) (purchases db_unlisted)"
    by (simp add: db_unlisted_def)
  with script_unlisted show ?thesis by (rule conjI)
qed

subsection \<open>Null handling\<close>

lemma fillna_no_na: "\<not> has_na (fillna r)"
  by (simp add: has_na_def fillna_def fillna_fl_def fillna_cell_def)

lemma str_strip_not_zero: "str_strip c \<noteq> Flt (Fin 0)"
  by (cases c) (simp_all add: str_strip_def)

subsection \<open>Sums over joins and groups\<close>

lemma sum_list_pairs:
  "sum_list (map (\<lambda>j. h (fst j)) (filter Q (map (Pair x) zs))) =
     (h x :: real) * real (length (filter (\<lambda>y. Q (x, y)) zs))"
  by (induction zs) (simp_all add: algebra_simps)

lemma inner_join_sum:
  "sum_list (map (\<lambda>j. h (fst j)) (filter Q (inner_join on xs ys))) =
     (\<Sum>x\<leftarrow>xs. (h x :: real) * real (length (filter (\<lambda>y. on x y \<and> Q (x, y)) ys)))"
proof (induction xs)
  case Nil
  show ?case by (simp add: inner_join_def)
next
  case (Cons x xs)
  have "filter (\<lambda>y. Q (x, y)) (filter (on x) ys) = filter (\<lambda>y. on x y \<and> Q (x, y)) ys"
    by (simp add: conj_commute)
  with Cons show ?case
    by (simp add: inner_join_def sum_list_pairs)
qed

lemma sum_list_if_distinct:
  "distinct ks \<Longrightarrow> (\<Sum>k\<leftarrow>ks. if a = k then c else 0) = (if a \<in> set ks then (c :: real) else 0)"
  by (induction ks) auto

lemma sum_groups_distinct:
  assumes "distinct ks"
  shows "key ` set xs \<subseteq> set ks \<Longrightarrow>
         (\<Sum>k\<leftarrow>ks. sum_list (map h (filter (\<lambda>x. key x = k) xs))) = (sum_list (map h xs) :: real)"
proof (induction xs)
  case Nil
  show ?case by simp
next
  case (Cons x xs)
  have "(\<Sum>k\<leftarrow>ks. sum_list (map h (filter (\<lambda>x. key x = k) (x # xs)))) =
        (\<Sum>k\<leftarrow>ks. (if key x = k then h x else 0) + sum_list (map h (filter (\<lambda>x. key x = k) xs)))"
    by (intro arg_cong [where f = sum_list] map_cong) auto
  also have "\<dots> = (\<Sum>k\<leftarrow>ks. if key x = k then h x else 0) +
                   (\<Sum>k\<leftarrow>ks. sum_list (map h (filter (\<lambda>x. key x = k) xs)))"
    by (simp add: sum_list_addf)
  also have "\<dots> = h x + sum_list (map h xs)"
    using Cons assms by (simp add: sum_list_if_distinct)
  finally show ?case by simp
qed

lemma group_by_sum:
  "(\<Sum>kg\<leftarrow>filter (\<lambda>kg. Q (fst kg)) (group_by key xs). sum_list (map h (snd kg))) =
     (sum_list (map h (filter (\<lambda>x. Q (key x)) xs)) :: real)"
proof -
  let ?ks = "filter Q (remdups (map key xs))"
  let ?xs = "filter (\<lambda>x. Q (key x)) xs"
  have "(\<Sum>kg\<leftarrow>filter (\<lambda>kg. Q (fst kg)) (group_by key xs). sum_list (map h (snd kg))) =
        (\<Sum>k\<leftarrow>?ks. sum_list (map h (filter (\<lambda>x. key x = k) xs)))"
    by (simp add: group_by_def filter_map comp_def)
  also have "\<dots> = (\<Sum>k\<leftarrow>?ks. sum_list (map h (filter (\<lambda>x. key x = k) ?xs)))"
    by (intro arg_cong [where f = sum_list] map_cong refl arg_cong [where f = "map h"])
       (auto intro: filter_cong)
  also have "\<dots> = sum_list (map h ?xs)"
    by (rule sum_groups_distinct) auto
  finally show ?thesis .
qed

lemma sum_list_mset_cong:
  "mset xs = mset ys \<Longrightarrow> sum_list (map g (filter P xs)) = (sum_list (map g (filter P ys)) :: real)"
proof -
  assume "mset xs = mset ys"
  then have "mset (map g (filter P xs)) = mset (map g (filter P ys))"
    by simp
  then show ?thesis
    by (metis sum_mset_sum_list)
qed

subsection \<open>Purchase totals\<close>

lemma query_counted:
  "vendor_table (vendor_invoice db_counted) (purchases db_counted) (purchase_prices db_counted)
     (sales db_counted) = [query_row_6, query_row_5]"
  by (simp add: db_counted_def query_row_6_def query_row_5_def query_defs)

lemma cleaned_counted: "cleaned float_750 db_counted = Inr [row_6, row_5]"
  by (simp add: db_counted_def row_6_def row_5_def float_750_def query_defs pandas_defs)

lemma clean_counted:
  "clean_row float_750 query_row_6 = row_6" "clean_row float_750 query_row_5 = row_5"
  by (simp_all add: clean_row_def astype_row_def query_row_6_def query_row_5_def row_6_def row_5_def
      float_750_def pandas_defs)

lemma purchase_join_filter:
  "filter Q (purchase_join p pp) =
     filter (\<lambda>j. p_PurchasePrice (fst j) > 0 \<and> Q j) (inner_join (\<lambda>a b. p_Brand a = pp_Brand b) p pp)"
  by (simp add: purchase_join_def conj_commute)

lemma sum_list_if_mult:
  "(\<Sum>x\<leftarrow>xs. if P x then c * f x else 0) = (c :: real) * sum_list (map f (filter P xs))"
  by (induction xs) (simp_all add: algebra_simps)

lemma purchase_group_total:
  assumes "j \<in> set (purchase_join p pp)"
  shows "sum_list (map (\<lambda>i. h (fst i)) (filter (\<lambda>i. purchase_key i = purchase_key j) (purchase_join p pp))) =
     real (length (filter (\<lambda>y. pp_Brand y = p_Brand (fst j) \<and> pp_Volume y = pp_Volume (snd j) \<and>
                                pp_Price y = pp_Price (snd j)) pp)) *
     sum_list (map h (filter (\<lambda>x. p_VendorNumber x = p_VendorNumber (fst j) \<and>
                                   p_VendorName x = p_VendorName (fst j) \<and>
                                   p_Brand x = p_Brand (fst j) \<and>
                                   p_Description x = p_Description (fst j) \<and>
                                   p_PurchasePrice x = p_PurchasePrice (fst j)) p))"
    (is "?lhs = real (length ?ys) * sum_list (map h (filter ?xm p))")
proof -
  have pos: "p_PurchasePrice (fst j) > 0"
    using assms by (simp add: purchase_join_mem)
  have inner: "filter (\<lambda>y. p_Brand x = pp_Brand y \<and> p_PurchasePrice x > 0 \<and>
                  purchase_key (x, y) = purchase_key j) pp = (if ?xm x then ?ys else [])" for x
    using pos by (auto simp: purchase_key_def intro!: filter_cong)
  have "?lhs = (\<Sum>x\<leftarrow>p. h x * real (length (if ?xm x then ?ys else [])))"
    by (simp only: purchase_join_filter inner_join_sum fst_conv inner)
  also have "\<dots> = (\<Sum>x\<leftarrow>p. if ?xm x then real (length ?ys) * h x else 0)"
    by (intro arg_cong [where f = sum_list] map_cong) auto
  also have "\<dots> = real (length ?ys) * sum_list (map h (filter ?xm p))"
    by (rule sum_list_if_mult)
  finally show ?thesis .
qed

lemma purchase_pair_total:
  "sum_list (map (\<lambda>i. h (fst i))
      (filter (\<lambda>i. p_VendorNumber (fst i) = v \<and> p_Brand (fst i) = b) (purchase_join p pp))) =
     real (length (filter (\<lambda>y. pp_Brand y = b) pp)) * purchase_total h p v b"
    (is "?lhs = real (length ?ys) * _")
proof -
  let ?xm = "\<lambda>x. p_VendorNumber x = v \<and> p_Brand x = b \<and> p_PurchasePrice x > 0"
  have inner: "filter (\<lambda>y. p_Brand x = pp_Brand y \<and> p_PurchasePrice x > 0 \<and>
                  p_VendorNumber x = v \<and> p_Brand x = b) pp =
               (if ?xm x then ?ys else [])" for x
    by (auto intro!: filter_cong)
  have "?lhs = (\<Sum>x\<leftarrow>p. h x * real (length (if ?xm x then ?ys else [])))"
    by (simp only: purchase_join_filter inner_join_sum fst_conv inner)
  also have "\<dots> = (\<Sum>x\<leftarrow>p. if ?xm x then real (length ?ys) * h x else 0)"
    by (intro arg_cong [where f = sum_list] map_cong) auto
  also have "\<dots> = real (length ?ys) * sum_list (map h (filter ?xm p))"
    by (rule sum_list_if_mult)
  finally show ?thesis
    by (simp add: purchase_total_def)
qed

lemma purchase_join_listed:
  "purchase_join (filter (\<lambda>x. p_Brand x \<in> pp_Brand ` set pp) p) pp = purchase_join p pp"
proof -
  have "inner_join (\<lambda>a b. p_Brand a = pp_Brand b) (filter (\<lambda>x. p_Brand x \<in> pp_Brand ` set pp) p) pp =
        inner_join (\<lambda>a b. p_Brand a = pp_Brand b) p pp"
  proof (induction p)
    case Nil
    show ?case by simp
  next
    case (Cons x p)
    have "filter (\<lambda>b. p_Brand x = pp_Brand b) pp = []" if "p_Brand x \<notin> pp_Brand ` set pp"
      using that by (auto simp: filter_empty_conv)
    with Cons show ?case
      by (simp add: inner_join_def)
  qed
  then show ?thesis
    by (simp add: purchase_join_def)
qed

lemma vendor_table_listed:
  "vendor_table vi (filter (\<lambda>x. p_Brand x \<in> pp_Brand ` set pp) p) pp s = vendor_table vi p pp s"
  by (simp add: vendor_table_def Purchase_summary_def purchase_join_listed)

lemma cleaned_listed:
  "cleaned to_float (db\<lparr>purchases := filter (\<lambda>x. p_Brand x \<in> pp_Brand ` set (purchase_prices db)) (purchases db)\<rparr>) =
   cleaned to_float db"
  by (simp add: cleaned_def read_sql_def vendor_table_listed)

text \<open>The totals of a row of the query's result.\<close>

lemma vendor_table_totals:
  assumes "t \<in> set (vendor_table vi p pp s)"
  shows "1 \<le> length (group_prices pp t) \<and> vt_PurchasePrice t > 0 \<and>
         vt_totalpurchasequantity t =
           real (length (group_prices pp t)) * sum_list (map p_Quantity (group_purchases p t)) \<and>
         vt_totalpurchasedollars t =
           real (length (group_prices pp t)) * sum_list (map p_Dollars (group_purchases p t))"
proof -
  from assms obtain ps where ps: "ps \<in> set (Purchase_summary p pp)" and t: "t = vendor_row vi s ps"
    by (auto simp: vendor_table_set)
  from ps obtain j where j: "j \<in> set (purchase_join p pp)"
    and g: "ps = purchase_group (purchase_key j,
              filter (\<lambda>x. purchase_key x = purchase_key j) (purchase_join p pp))"
    by (rule Purchase_summary_from_join)
  have gp: "group_purchases p t =
      filter (\<lambda>x. p_VendorNumber x = p_VendorNumber (fst j) \<and> p_VendorName x = p_VendorName (fst j) \<and>
                  p_Brand x = p_Brand (fst j) \<and> p_Description x = p_Description (fst j) \<and>
                  p_PurchasePrice x = p_PurchasePrice (fst j)) p"
    by (simp add: group_purchases_def t g vendor_row_keys purchase_group_sel)
  have gy: "group_prices pp t =
      filter (\<lambda>y. pp_Brand y = p_Brand (fst j) \<and> pp_Volume y = pp_Volume (snd j) \<and>
                  pp_Price y = pp_Price (snd j)) pp"
    by (simp add: group_prices_def t g vendor_row_keys purchase_group_sel)
  from j have "snd j \<in> set (group_prices pp t)"
    by (simp add: gy purchase_join_mem)
  then have "1 \<le> length (group_prices pp t)"
    by (cases "group_prices pp t") simp_all
  moreover from j have "vt_PurchasePrice t > 0"
    by (simp add: t g vendor_row_keys purchase_group_sel purchase_join_mem)
  moreover have "vt_totalpurchasequantity t =
      real (length (group_prices pp t)) * sum_list (map p_Quantity (group_purchases p t))"
    unfolding gp gy
    by (simp add: t g vendor_row_keys purchase_group_sel purchase_group_total [OF j])
  moreover have "vt_totalpurchasedollars t =
      real (length (group_prices pp t)) * sum_list (map p_Dollars (group_purchases p t))"
    unfolding gp gy
    by (simp add: t g vendor_row_keys purchase_group_sel purchase_group_total [OF j])
  ultimately show ?thesis by blast
qed

lemma fl_sum_Fin: "fl_sum (map (\<lambda>t. Fin (g t)) ts) = Fin (sum_list (map g ts))"
  by (induction ts) (simp_all add: fl_sum_def)

lemma purchase_group_totals:
  "ps_totalpurchasequantity (purchase_group kg) = sum_list (map (\<lambda>j. p_Quantity (fst j)) (snd kg))"
  "ps_totalpurchasedollars (purchase_group kg) = sum_list (map (\<lambda>j. p_Dollars (fst j)) (snd kg))"
  "ps_VendorNumber (purchase_group kg) = fst (fst kg)"
  "ps_Brand (purchase_group kg) = fst (snd (snd (fst kg)))"
  by (simp_all add: purchase_group_def split: prod.splits)

lemma Purchase_summary_pair_total:
  assumes "\<And>kg. tot (purchase_group kg) = sum_list (map (\<lambda>j. h (fst j)) (snd kg))"
  shows "sum_list (map tot (filter (\<lambda>ps. ps_VendorNumber ps = v \<and> ps_Brand ps = b) (Purchase_summary p pp))) =
     real (length (filter (\<lambda>y. pp_Brand y = b) pp)) * purchase_total h p v b"
proof -
  let ?Q = "\<lambda>k :: purchase_key. fst k = v \<and> fst (snd (snd k)) = b"
  have "sum_list (map tot (filter (\<lambda>ps. ps_VendorNumber ps = v \<and> ps_Brand ps = b) (Purchase_summary p pp))) =
        (\<Sum>kg\<leftarrow>filter (\<lambda>kg. ?Q (fst kg)) (group_by purchase_key (purchase_join p pp)).
            sum_list (map (\<lambda>j. h (fst j)) (snd kg)))"
    by (simp add: Purchase_summary_def filter_map comp_def purchase_group_totals assms)
  also have "\<dots> = sum_list (map (\<lambda>j. h (fst j)) (filter (\<lambda>j. ?Q (purchase_key j)) (purchase_join p pp)))"
    by (rule group_by_sum)
  also have "\<dots> = sum_list (map (\<lambda>j. h (fst j))
      (filter (\<lambda>i. p_VendorNumber (fst i) = v \<and> p_Brand (fst i) = b) (purchase_join p pp)))"
    by (simp add: purchase_key_def)
  also have "\<dots> = real (length (filter (\<lambda>y. pp_Brand y = b) pp)) * purchase_total h p v b"
    by (rule purchase_pair_total)
  finally show ?thesis .
qed

lemma output_pair_total:
  assumes "cleaned to_float db = Inr out"
    and "\<And>t. col (clean_row to_float t) = Fin (vcol t)"
    and "\<And>vi s ps. vcol (vendor_row vi s ps) = tot ps"
    and "\<And>kg. tot (purchase_group kg) = sum_list (map (\<lambda>j. h (fst j)) (snd kg))"
  shows "fl_sum (map col (filter (\<lambda>r. VendorNumber r = v \<and> Brand r = b) out)) =
     Fin (real (length (filter (\<lambda>y. pp_Brand y = b) (purchase_prices db))) *
          purchase_total h (purchases db) v b)"
proof -
  let ?PS = "Purchase_summary (purchases db) (purchase_prices db)"
  let ?T = "vendor_table (vendor_invoice db) (purchases db) (purchase_prices db) (sales db)"
  let ?U = "map (vendor_row (vendor_invoice db) (sales db)) ?PS"
  let ?Pt = "\<lambda>t. vt_VendorNumber t = v \<and> vt_Brand t = b"
  have out: "out = map (clean_row to_float) ?T"
    by (rule cleaned_Inr [OF assms(1)])
  have "map col (filter (\<lambda>r. VendorNumber r = v \<and> Brand r = b) out) =
        map (\<lambda>t. Fin (vcol t)) (filter ?Pt ?T)"
    by (simp add: out filter_map comp_def clean_row_keys assms(2))
  then have "fl_sum (map col (filter (\<lambda>r. VendorNumber r = v \<and> Brand r = b) out)) =
        Fin (sum_list (map vcol (filter ?Pt ?T)))"
    by (simp only: fl_sum_Fin)
  also have "sum_list (map vcol (filter ?Pt ?T)) = sum_list (map vcol (filter ?Pt ?U))"
    by (rule sum_list_mset_cong) (simp add: vendor_table_eq)
  also have "\<dots> = sum_list (map tot (filter (\<lambda>ps. ps_VendorNumber ps = v \<and> ps_Brand ps = b) ?PS))"
    by (simp add: filter_map comp_def vendor_row_keys assms(3))
  also have "\<dots> = real (length (filter (\<lambda>y. pp_Brand y = b) (purchase_prices db))) *
          purchase_total h (purchases db) v b"
    by (rule Purchase_summary_pair_total [OF assms(4)])
  finally show ?thesis .
qed

text \<open>Claim C1, amended. When the script completes, for every vendor \<open>v\<close> and brand \<open>b\<close> the
  \<^verbatim>\<open>totalpurchasedollars\<close> of the output rows for (\<open>v\<close>, \<open>b\<close>) add up to the sum of
  \<^verbatim>\<open>Dollars\<close> over all purchase rows with \<^verbatim>\<open>VendorNumber\<close> \<open>v\<close>, \<^verbatim>\<open>Brand\<close> \<open>b\<close> and
  \<^verbatim>\<open>PurchasePrice > 0\<close>, multiplied by the number of rows of \<^verbatim>\<open>purchase_prices\<close> with
  \<^verbatim>\<open>Brand\<close> \<open>b\<close>; likewise \<^verbatim>\<open>totalpurchasequantity\<close> and \<^verbatim>\<open>Quantity\<close>.\<close>

theorem purchase_totals_per_pair:
  assumes "cleaned to_float db = Inr out"
  shows "fl_sum (map totalpurchasedollars (filter (\<lambda>r. VendorNumber r = v \<and> Brand r = b) out)) =
           Fin (real (length (filter (\<lambda>y. pp_Brand y = b) (purchase_prices db))) *
                purchase_total p_Dollars (purchases db) v b) \<and>
         fl_sum (map totalpurchasequantity (filter (\<lambda>r. VendorNumber r = v \<and> Brand r = b) out)) =
           Fin (real (length (filter (\<lambda>y. pp_Brand y = b) (purchase_prices db))) *
                purchase_total p_Quantity (purchases db) v b)"
proof
  show "fl_sum (map totalpurchasedollars (filter (\<lambda>r. VendorNumber r = v \<and> Brand r = b) out)) =
           Fin (real (length (filter (\<lambda>y. pp_Brand y = b) (purchase_prices db))) *
                purchase_total p_Dollars (purchases db) v b)"
    by (rule output_pair_total [OF assms, where vcol = vt_totalpurchasedollars
          and tot = ps_totalpurchasedollars])
       (simp_all add: clean_row_totals vendor_row_keys purchase_group_totals)
  show "fl_sum (map totalpurchasequantity (filter (\<lambda>r. VendorNumber r = v \<and> Brand r = b) out)) =
           Fin (real (length (filter (\<lambda>y. pp_Brand y = b) (purchase_prices db))) *
                purchase_total p_Quantity (purchases db) v b)"
    by (rule output_pair_total [OF assms, where vcol = vt_totalpurchasequantity
          and tot = ps_totalpurchasequantity])
       (simp_all add: clean_row_totals vendor_row_keys purchase_group_totals)
qed

theorem purchase_totals_per_pair_witness:
  "cleaned float_750 db_counted = Inr [row_6, row_5] \<and>
   fl_sum (map totalpurchasedollars (filter (\<lambda>r. VendorNumber r = 1 \<and> Brand r = ''A'') [row_6, row_5])) =
     Fin 220 \<and>
   length (filter (\<lambda>y. pp_Brand y = ''A'') (purchase_prices db_counted)) = 2 \<and>
   purchase_total p_Dollars (purchases db_counted) 1 ''A'' = 110"
proof -
  have "length (filter (\<lambda>y. pp_Brand y = ''A'') (purchase_prices db_counted)) = 2"
    "purchase_total p_Dollars (purchases db_counted) 1 ''A'' = 110"
    by (simp_all add: purchase_total_def db_counted_def)
  with purchase_totals_per_pair [OF cleaned_counted, of 1 "''A''"] cleaned_counted
  show ?thesis by simp
qed

lemma cleaned_two_prices: "cleaned float_750 db_two_prices = Inr [row_60, row_50]"
  by (simp add: db_two_prices_def row_60_def row_50_def float_750_def query_defs pandas_defs)

text \<open>Claim C1 as stated fails, also where \<^verbatim>\<open>Brand\<close> is a key of
  \<^verbatim>\<open>purchase_prices\<close>: the two output rows for vendor 1 and brand A carry 60 and 50,
  while the purchase rows of that pair with a positive price sum to 110.\<close>

theorem purchase_totals_counterexample:
  "cleaned float_750 db_two_prices = Inr [row_60, row_50] \<and>
   VendorNumber row_60 = 1 \<and> Brand row_60 = ''A'' \<and> totalpurchasedollars row_60 = Fin 60 \<and>
   VendorNumber row_50 = 1 \<and> Brand row_50 = ''A'' \<and> totalpurchasedollars row_50 = Fin 50 \<and>
   purchase_total p_Dollars (purchases db_two_prices) 1 ''A'' = 110"
proof -
  have "purchase_total p_Dollars (purchases db_two_prices) 1 ''A'' = 110"
    by (simp add: purchase_total_def db_two_prices_def)
  with cleaned_two_prices show ?thesis
    by (simp add: row_60_def row_50_def)
qed

subsection \<open>Independence of the row order\<close>

lemma sum_list_mset_eq:
  "mset xs = mset ys \<Longrightarrow> sum_list (map g xs) = (sum_list (map g ys) :: real)"
  using sum_list_mset_cong [of xs ys g "\<lambda>_. True"] by simp

lemma sum_list_as_mset:
  "(\<Sum>x\<leftarrow>xs. f x) = (\<Sum>x\<in>#mset xs. (f x :: 'b multiset))"
proof -
  have "(\<Sum>x\<leftarrow>xs. f x) = sum_mset (mset (map f xs))"
    by (simp only: sum_mset_sum_list)
  then show ?thesis
    by (simp only: mset_map)
qed

lemma inner_join_mset:
  "mset (inner_join on xs ys) =
     (\<Sum>x\<in>#mset xs. image_mset (Pair x) (filter_mset (on x) (mset ys)))"
proof -
  have "mset (inner_join on xs ys) = (\<Sum>x\<leftarrow>xs. image_mset (Pair x) (filter_mset (on x) (mset ys)))"
    unfolding inner_join_def mset_concat map_map comp_def mset_map mset_filter ..
  then show ?thesis
    by (simp only: sum_list_as_mset)
qed

lemma inner_join_mset_cong:
  "mset xs = mset xs' \<Longrightarrow> mset ys = mset ys' \<Longrightarrow>
   mset (inner_join on xs ys) = mset (inner_join on xs' ys')"
  by (simp only: inner_join_mset)

lemma group_by_mset_cong:
  assumes "mset xs = mset ys"
    and "\<And>k g g'. mset g = mset g' \<Longrightarrow> F (k, g) = F (k, g')"
  shows "mset (map F (group_by key xs)) = mset (map F (group_by key ys))"
proof -
  have "set xs = set ys"
    using assms(1) by (rule mset_eq_setD)
  then have "set (remdups (map key xs)) = set (remdups (map key ys))"
    by simp
  then have keys: "mset (remdups (map key xs)) = mset (remdups (map key ys))"
    by (rule set_eq_iff_mset_eq_distinct [THEN iffD1, rotated 2]) simp_all
  have "mset (filter (\<lambda>x. key x = k) xs) = mset (filter (\<lambda>x. key x = k) ys)" for k
    by (simp only: mset_filter assms(1))
  then have F: "F (k, filter (\<lambda>x. key x = k) xs) = F (k, filter (\<lambda>x. key x = k) ys)" for k
    by (rule assms(2))
  have "mset (map F (group_by key xs)) =
        image_mset (\<lambda>k. F (k, filter (\<lambda>x. key x = k) xs)) (mset (remdups (map key xs)))"
    by (simp add: group_by_def comp_def)
  also have "\<dots> = image_mset (\<lambda>k. F (k, filter (\<lambda>x. key x = k) ys)) (mset (remdups (map key ys)))"
    by (simp only: F keys)
  also have "\<dots> = mset (map F (group_by key ys))"
    by (simp add: group_by_def comp_def)
  finally show ?thesis .
qed

lemma purchase_group_mset_cong:
  "mset g = mset g' \<Longrightarrow> purchase_group (k, g) = purchase_group (k, g')"
proof -
  assume g: "mset g = mset g'"
  have "sum_list (map h g) = sum_list (map h g')" for h :: "purchases_row \<times> purchase_prices_row \<Rightarrow> real"
    using g by (rule sum_list_mset_eq)
  then show ?thesis
    by (simp add: purchase_group_def split: prod.splits)
qed

lemma Purchase_summary_mset_cong:
  assumes "mset p = mset p'" and "mset pp = mset pp'"
  shows "mset (Purchase_summary p pp) = mset (Purchase_summary p' pp')"
proof -
  have "mset (inner_join (\<lambda>a b. p_Brand a = pp_Brand b) p pp) =
        mset (inner_join (\<lambda>a b. p_Brand a = pp_Brand b) p' pp')"
    using assms by (rule inner_join_mset_cong)
  then have "mset (purchase_join p pp) = mset (purchase_join p' pp')"
    by (simp only: purchase_join_def mset_filter)
  then show ?thesis
    unfolding Purchase_summary_def
    by (rule group_by_mset_cong) (rule purchase_group_mset_cong)
qed

lemma freight_partner_mset_cong:
  assumes "mset vi = mset vi'"
  shows "freight_partner vi ps = freight_partner vi' ps"
proof -
  have "set vi = set vi'"
    using assms by (rule mset_eq_setD)
  moreover have "sum_list (map vi_Freight (filter (\<lambda>i. vi_VendorNumber i = ps_VendorNumber ps) vi)) =
      sum_list (map vi_Freight (filter (\<lambda>i. vi_VendorNumber i = ps_VendorNumber ps) vi'))"
    using assms by (rule sum_list_mset_cong)
  ultimately show ?thesis
    by (simp only: freight_partner_eq)
qed

lemma sales_partner_mset_cong:
  assumes "mset s = mset s'"
  shows "sales_partner s ps = sales_partner s' ps"
proof -
  have "set s = set s'"
    using assms by (rule mset_eq_setD)
  moreover have "sum_list (map h (filter (\<lambda>r. (s_VendorNo r, s_Brand r) = (ps_VendorNumber ps, ps_Brand ps)) s)) =
      sum_list (map h (filter (\<lambda>r. (s_VendorNo r, s_Brand r) = (ps_VendorNumber ps, ps_Brand ps)) s'))"
    for h :: "sales_row \<Rightarrow> real"
    using assms by (rule sum_list_mset_cong)
  ultimately show ?thesis
    by (simp only: sales_partner_def sales_summary_filter)
qed

lemma vendor_table_mset_cong:
  assumes "mset vi = mset vi'" "mset p = mset p'" "mset pp = mset pp'" "mset s = mset s'"
  shows "mset (vendor_table vi p pp s) = mset (vendor_table vi' p' pp' s')"
proof -
  have "vendor_row vi s ps = vendor_row vi' s' ps" for ps
    by (simp only: vendor_row_def freight_partner_mset_cong [OF assms(1)]
          sales_partner_mset_cong [OF assms(4)])
  then have "vendor_row vi s = vendor_row vi' s'"
    by (rule ext)
  then show ?thesis
    by (simp only: vendor_table_eq mset_sort mset_map Purchase_summary_mset_cong [OF assms(2,3)])
qed

lemma str_accessor_ok_set:
  "str_accessor_ok col \<longleftrightarrow> (\<forall>c\<in>set col. c = Flt NaN) \<or> (\<exists>c\<in>set col. is_str c)"
  by (auto simp: str_accessor_ok_def filter_empty_conv list_ex_iff)

lemma cleaned_mset_cong:
  assumes "mset (vendor_invoice db) = mset (vendor_invoice db')"
    and "mset (purchases db) = mset (purchases db')"
    and "mset (purchase_prices db) = mset (purchase_prices db')"
    and "mset (sales db) = mset (sales db')"
  shows "rel_sum (=) (\<lambda>a b. mset a = mset b) (cleaned to_float db) (cleaned to_float db')"
proof -
  let ?T = "vendor_table (vendor_invoice db) (purchases db) (purchase_prices db) (sales db)"
  let ?T' = "vendor_table (vendor_invoice db') (purchases db') (purchase_prices db') (sales db')"
  have T: "mset ?T = mset ?T'"
    using assms by (rule vendor_table_mset_cong)
  then have sT: "set ?T = set ?T'"
    by (rule mset_eq_setD)
  have rd: "set (read_sql db) = set (read_sql db')"
    by (simp only: read_sql_def set_map sT)
  have ok: "str_accessor_ok (map g (read_sql db)) = str_accessor_ok (map g (read_sql db'))" for g
    by (simp only: str_accessor_ok_set set_map rd)
  have out: "mset (map (clean_row to_float) ?T) = mset (map (clean_row to_float) ?T')"
    by (simp only: mset_map T)
  show ?thesis
    unfolding cleaned_eq rd ok
    using out by (simp del: mset_map)
qed

lemma script_sources:
  assumes "vendor_cleaning_script to_float db = Inr db'"
  shows "vendor_invoice db' = vendor_invoice db \<and> purchases db' = purchases db \<and>
         purchase_prices db' = purchase_prices db \<and> sales db' = sales db"
  using assms by (auto simp: script_Inr)

lemma cleaned_sources:
  "cleaned to_float (db\<lparr>vendor_cleaned := t\<rparr>) = cleaned to_float db"
  by (simp add: cleaned_def read_sql_def)

text \<open>Claim C8. The result of the script depends on the four source tables only, and on
  them only as multisets of rows. If a run on \<open>db1\<close> raises, a run on any \<open>db2\<close> holding the
  same source rows raises the same exception. If it completes, it leaves the source tables
  as they were, a second run on its result changes nothing, and a run on any \<open>db2\<close> holding
  the same source rows (in any order, with any earlier \<^verbatim>\<open>vendor_cleaned\<close>) completes with
  the same rows in \<^verbatim>\<open>vendor_cleaned\<close>.\<close>

theorem rerun_same_rows:
  assumes "mset (vendor_invoice db2) = mset (vendor_invoice db1)"
    and "mset (purchases db2) = mset (purchases db1)"
    and "mset (purchase_prices db2) = mset (purchase_prices db1)"
    and "mset (sales db2) = mset (sales db1)"
  shows "(\<forall>e. vendor_cleaning_script to_float db1 = Inl e \<longrightarrow>
              vendor_cleaning_script to_float db2 = Inl e) \<and>
         (\<forall>db1'. vendor_cleaning_script to_float db1 = Inr db1' \<longrightarrow>
              vendor_invoice db1' = vendor_invoice db1 \<and> purchases db1' = purchases db1 \<and>
              purchase_prices db1' = purchase_prices db1 \<and> sales db1' = sales db1 \<and>
              vendor_cleaning_script to_float db1' = Inr db1' \<and>
              (\<exists>t1 t2. vendor_cleaned db1' = Some t1 \<and>
                 vendor_cleaning_script to_float db2 = Inr (db2\<lparr>vendor_cleaned := Some t2\<rparr>) \<and>
                 mset t2 = mset t1))"
proof -
  have rel: "rel_sum (=) (\<lambda>a b. mset a = mset b) (cleaned to_float db1) (cleaned to_float db2)"
    by (rule cleaned_mset_cong) (simp_all only: assms)
  have 1: "vendor_cleaning_script to_float db2 = Inl e"
    if "vendor_cleaning_script to_float db1 = Inl e" for e
  proof -
    from that have "cleaned to_float db1 = Inl e"
      by (simp add: vendor_cleaning_script_def split: sum.splits)
    with rel have "cleaned to_float db2 = Inl e"
      by (cases "cleaned to_float db2") simp_all
    then show ?thesis
      by (simp add: vendor_cleaning_script_def)
  qed
  have 2: "vendor_invoice db1' = vendor_invoice db1 \<and> purchases db1' = purchases db1 \<and>
              purchase_prices db1' = purchase_prices db1 \<and> sales db1' = sales db1 \<and>
              vendor_cleaning_script to_float db1' = Inr db1' \<and>
              (\<exists>t1 t2. vendor_cleaned db1' = Some t1 \<and>
                 vendor_cleaning_script to_float db2 = Inr (db2\<lparr>vendor_cleaned := Some t2\<rparr>) \<and>
                 mset t2 = mset t1)"
    if run: "vendor_cleaning_script to_float db1 = Inr db1'" for db1'
  proof -
    from run obtain t1 where t1: "cleaned to_float db1 = Inr t1"
      and db1': "db1' = db1\<lparr>vendor_cleaned := Some t1\<rparr>"
      by (auto simp: script_Inr)
    from rel t1 obtain t2 where t2: "cleaned to_float db2 = Inr t2" and eq: "mset t2 = mset t1"
      by (cases "cleaned to_float db2") simp_all
    have "vendor_cleaning_script to_float db1' = Inr db1'"
      by (simp add: vendor_cleaning_script_def db1' cleaned_sources t1)
    moreover have "vendor_cleaning_script to_float db2 = Inr (db2\<lparr>vendor_cleaned := Some t2\<rparr>)"
      by (simp add: vendor_cleaning_script_def t2)
    moreover have "vendor_cleaned db1' = Some t1"
      by (simp add: db1')
    ultimately show ?thesis
      using script_sources [OF run] eq by blast
  qed
  from 1 2 show ?thesis by blast
qed

theorem rerun_same_rows_witness:
  "mset (purchases db_shuffled) = mset (purchases db_example) \<and>
   mset (sales db_shuffled) = mset (sales db_example) \<and>
   vendor_cleaning_script float_750 db_example =
     Inr (db_example\<lparr>vendor_cleaned := Some [row_1A, row_1B, row_2A, row_4B]\<rparr>) \<and>
   (\<exists>t2. vendor_cleaning_script float_750 db_shuffled = Inr (db_shuffled\<lparr>vendor_cleaned := Some t2\<rparr>) \<and>
         mset t2 = mset [row_1A, row_1B, row_2A, row_4B])"
proof -
  have h: "mset (vendor_invoice db_shuffled) = mset (vendor_invoice db_example)"
    "mset (purchases db_shuffled) = mset (purchases db_example)"
    "mset (purchase_prices db_shuffled) = mset (purchase_prices db_example)"
    "mset (sales db_shuffled) = mset (sales db_example)"
    by (simp_all add: db_shuffled_def)
  from rerun_same_rows [OF h, of float_750] script_example
  have "\<exists>t2. vendor_cleaning_script float_750 db_shuffled = Inr (db_shuffled\<lparr>vendor_cleaned := Some t2\<rparr>) \<and>
         mset t2 = mset [row_1A, row_1B, row_2A, row_4B]"
    by simp
  with h(2,4) script_example show ?thesis by blast
qed


lemma cleaned_completes:
  "(\<exists>out. cleaned to_float db = Inr out) \<longleftrightarrow>
     (\<forall>t\<in>set (vendor_table (vendor_invoice db) (purchases db) (purchase_prices db) (sales db)).
         astype_float64 to_float (of_sql_volume (vt_Volume t)) \<noteq> None) \<and>
     (vendor_table (vendor_invoice db) (purchases db) (purchase_prices db) (sales db) = [] \<or>
      (\<exists>t\<in>set (vendor_table (vendor_invoice db) (purchases db) (purchase_prices db) (sales db)).
         vt_VendorName t \<noteq> None))"
proof -
  let ?T = "vendor_table (vendor_invoice db) (purchases db) (purchase_prices db) (sales db)"
  have name: "VendorName (fillna (astype_row to_float (read_row t))) =
      (case vt_VendorName t of None \<Rightarrow> Flt (Fin 0) | Some n \<Rightarrow> Str n)" for t
    by (simp add: fillna_def astype_row_def read_row_def fillna_cell_def of_sql_text_def
        split: option.splits)
  have "str_accessor_ok (map (\<lambda>r. VendorName (fillna (astype_row to_float r))) (read_sql db)) \<longleftrightarrow>
        ?T = [] \<or> (\<exists>t\<in>set ?T. vt_VendorName t \<noteq> None)"
    by (cases ?T)
       (auto simp: str_accessor_ok_set read_sql_def name is_str_def split: option.splits)
  moreover have "(\<exists>r\<in>set (read_sql db). astype_float64 to_float (Volume r) = None) \<longleftrightarrow>
        \<not> (\<forall>t\<in>set ?T. astype_float64 to_float (of_sql_volume (vt_Volume t)) \<noteq> None)"
    by (simp add: read_sql_def read_row_def)
  ultimately show ?thesis
    by (simp add: cleaned_eq)
qed

subsection \<open>How often a purchase row is counted\<close>

lemma vendor_table_key:
  assumes "t \<in> set (vendor_table vi p pp s)"
  obtains j where "j \<in> set (purchase_join p pp)" and "vendor_key t = purchase_key j"
    and "vt_totalpurchasequantity t =
           sum_list (map (\<lambda>i. p_Quantity (fst i))
             (filter (\<lambda>i. purchase_key i = purchase_key j) (purchase_join p pp)))"
    and "vt_totalpurchasedollars t =
           sum_list (map (\<lambda>i. p_Dollars (fst i))
             (filter (\<lambda>i. purchase_key i = purchase_key j) (purchase_join p pp)))"
proof -
  from assms obtain ps where ps: "ps \<in> set (Purchase_summary p pp)" and t: "t = vendor_row vi s ps"
    by (auto simp: vendor_table_set)
  from ps obtain j where j: "j \<in> set (purchase_join p pp)"
    and g: "ps = purchase_group (purchase_key j,
              filter (\<lambda>x. purchase_key x = purchase_key j) (purchase_join p pp))"
    by (rule Purchase_summary_from_join)
  have sel: "ps_VendorNumber ps = p_VendorNumber (fst j)" "ps_VendorName ps = p_VendorName (fst j)"
    "ps_Brand ps = p_Brand (fst j)" "ps_Description ps = p_Description (fst j)"
    "ps_PurchasePrice ps = p_PurchasePrice (fst j)" "ps_Volume ps = pp_Volume (snd j)"
    "ps_actualprice ps = pp_Price (snd j)"
    by (simp_all add: g purchase_group_sel)
  have "vendor_key t = purchase_key j"
    by (simp add: vendor_key_def t vendor_row_keys sel purchase_key_def)
  moreover have "vt_totalpurchasequantity t =
           sum_list (map (\<lambda>i. p_Quantity (fst i))
             (filter (\<lambda>i. purchase_key i = purchase_key j) (purchase_join p pp)))"
    "vt_totalpurchasedollars t =
           sum_list (map (\<lambda>i. p_Dollars (fst i))
             (filter (\<lambda>i. purchase_key i = purchase_key j) (purchase_join p pp)))"
    by (simp_all add: t g vendor_row_keys purchase_group_sel)
  ultimately show thesis
    using j that by blast
qed

lemma key_total_counted:
  "sum_list (map (\<lambda>i. h (fst i)) (filter (\<lambda>i. purchase_key i = vendor_key t) (purchase_join p pp))) =
     (\<Sum>x\<leftarrow>p. real (times_counted pp x t) * h x)"
proof -
  have "sum_list (map (\<lambda>i. h (fst i)) (filter (\<lambda>i. purchase_key i = vendor_key t) (purchase_join p pp))) =
      (\<Sum>x\<leftarrow>p. h x * real (times_counted pp x t))"
    by (simp only: purchase_join_filter inner_join_sum fst_conv times_counted_def)
  then show ?thesis
    by (simp add: mult.commute)
qed

lemma vendor_table_counted:
  assumes "t \<in> set (vendor_table vi p pp s)"
  shows "vt_totalpurchasequantity t = (\<Sum>x\<leftarrow>p. real (times_counted pp x t) * p_Quantity x)"
    and "vt_totalpurchasedollars t = (\<Sum>x\<leftarrow>p. real (times_counted pp x t) * p_Dollars x)"
proof -
  from assms obtain j where k: "vendor_key t = purchase_key j"
    and q: "vt_totalpurchasequantity t =
           sum_list (map (\<lambda>i. p_Quantity (fst i))
             (filter (\<lambda>i. purchase_key i = purchase_key j) (purchase_join p pp)))"
    and d: "vt_totalpurchasedollars t =
           sum_list (map (\<lambda>i. p_Dollars (fst i))
             (filter (\<lambda>i. purchase_key i = purchase_key j) (purchase_join p pp)))"
    by (rule vendor_table_key)
  show "vt_totalpurchasequantity t = (\<Sum>x\<leftarrow>p. real (times_counted pp x t) * p_Quantity x)"
    unfolding q k [symmetric] by (rule key_total_counted)
  show "vt_totalpurchasedollars t = (\<Sum>x\<leftarrow>p. real (times_counted pp x t) * p_Dollars x)"
    unfolding d k [symmetric] by (rule key_total_counted)
qed

lemma purchase_row_counted:
  assumes "x \<in> set p" "y \<in> set pp" "p_PurchasePrice x > 0" "pp_Brand y = p_Brand x"
  shows "\<exists>t\<in>set (vendor_table vi p pp s). vendor_key t = purchase_key (x, y) \<and>
           times_counted pp x t =
             length (filter (\<lambda>z. pp_Brand z = p_Brand x \<and> pp_Volume z = pp_Volume y \<and>
                                  pp_Price z = pp_Price y) pp)"
proof -
  let ?J = "purchase_join p pp"
  let ?ps = "purchase_group (purchase_key (x, y), filter (\<lambda>j. purchase_key j = purchase_key (x, y)) ?J)"
  let ?t = "vendor_row vi s ?ps"
  have "(x, y) \<in> set ?J"
    using assms by (simp add: purchase_join_mem)
  then have "?ps \<in> set (Purchase_summary p pp)"
    by (auto simp: Purchase_summary_def group_by_set)
  then have "?t \<in> set (vendor_table vi p pp s)"
    by (simp add: vendor_table_set)
  moreover have key: "vendor_key ?t = purchase_key (x, y)"
  proof -
    have "ps_VendorNumber ?ps = p_VendorNumber x" "ps_VendorName ?ps = p_VendorName x"
      "ps_Brand ?ps = p_Brand x" "ps_Description ?ps = p_Description x"
      "ps_PurchasePrice ?ps = p_PurchasePrice x" "ps_Volume ?ps = pp_Volume y"
      "ps_actualprice ?ps = pp_Price y"
      using purchase_group_sel [of "(x, y)"] by simp_all
    then show ?thesis
      by (simp add: vendor_key_def vendor_row_keys purchase_key_def)
  qed
  moreover have "times_counted pp x ?t =
      length (filter (\<lambda>z. pp_Brand z = p_Brand x \<and> pp_Volume z = pp_Volume y \<and>
                           pp_Price z = pp_Price y) pp)"
    unfolding times_counted_def key
    using assms(3) by (intro arg_cong [where f = length] filter_cong) (auto simp: purchase_key_def)
  ultimately show ?thesis by blast
qed

lemma purchase_row_dropped:
  "p_PurchasePrice x \<le> 0 \<or> p_Brand x \<notin> pp_Brand ` set pp \<Longrightarrow> times_counted pp x t = 0"
  by (auto simp: times_counted_def filter_empty_conv)

lemma Fin_multiple_eq: "Fin (real k * a) = Fin a \<longleftrightarrow> k = 1 \<or> a = 0"
proof -
  have "real k * a = a \<longleftrightarrow> (real k - 1) * a = 0"
    by (simp add: algebra_simps)
  then show ?thesis by auto
qed

text \<open>Claim C9, amended. When the script completes:
  every output row comes from a row \<open>t\<close> of the query's result, and its
  \<^verbatim>\<open>totalpurchasequantity\<close> and \<^verbatim>\<open>totalpurchasedollars\<close> are the sums, over all purchase
  rows, of the row's \<^verbatim>\<open>Quantity\<close> and \<^verbatim>\<open>Dollars\<close> times the number of times the row is
  counted in \<open>t\<close>;
  a purchase row with \<^verbatim>\<open>PurchasePrice > 0\<close> whose \<^verbatim>\<open>Brand\<close> has a row \<open>y\<close> in
  \<^verbatim>\<open>purchase_prices\<close> has an output row for its group and the \<^verbatim>\<open>Volume\<close> and
  \<^verbatim>\<open>Price\<close> of \<open>y\<close>, in which it is counted exactly \<open>k\<close> times, \<open>k\<close> the number of rows of
  \<^verbatim>\<open>purchase_prices\<close> with that \<^verbatim>\<open>Brand\<close>, \<^verbatim>\<open>Volume\<close> and \<^verbatim>\<open>Price\<close>;
  a purchase row with \<^verbatim>\<open>PurchasePrice\<close> at most 0, or whose \<^verbatim>\<open>Brand\<close> is not in
  \<^verbatim>\<open>purchase_prices\<close>, is counted 0 times in every row;
  and for every vendor \<open>v\<close> and brand \<open>b\<close> the totals of the output rows for (\<open>v\<close>, \<open>b\<close>) add up
  to the sums over the purchase rows of that pair with a positive price exactly when \<open>b\<close> has
  one row in \<^verbatim>\<open>purchase_prices\<close> or that sum is 0.\<close>

theorem purchase_rows_counted:
  assumes "cleaned to_float db = Inr out"
  shows "(\<forall>r\<in>set out.
            \<exists>t\<in>set (vendor_table (vendor_invoice db) (purchases db) (purchase_prices db) (sales db)).
              r = clean_row to_float t \<and>
              totalpurchasequantity r =
                Fin (\<Sum>x\<leftarrow>purchases db. real (times_counted (purchase_prices db) x t) * p_Quantity x) \<and>
              totalpurchasedollars r =
                Fin (\<Sum>x\<leftarrow>purchases db. real (times_counted (purchase_prices db) x t) * p_Dollars x)) \<and>
         (\<forall>x\<in>set (purchases db). \<forall>y\<in>set (purchase_prices db).
            p_PurchasePrice x > 0 \<and> pp_Brand y = p_Brand x \<longrightarrow>
            (\<exists>t\<in>set (vendor_table (vendor_invoice db) (purchases db) (purchase_prices db) (sales db)).
               clean_row to_float t \<in> set out \<and> vendor_key t = purchase_key (x, y) \<and>
               times_counted (purchase_prices db) x t =
                 length (filter (\<lambda>z. pp_Brand z = p_Brand x \<and> pp_Volume z = pp_Volume y \<and>
                                      pp_Price z = pp_Price y) (purchase_prices db)))) \<and>
         (\<forall>x\<in>set (purchases db).
            p_PurchasePrice x \<le> 0 \<or> p_Brand x \<notin> pp_Brand ` set (purchase_prices db) \<longrightarrow>
            (\<forall>t\<in>set (vendor_table (vendor_invoice db) (purchases db) (purchase_prices db) (sales db)).
               times_counted (purchase_prices db) x t = 0)) \<and>
         (\<forall>v b.
            (fl_sum (map totalpurchasequantity (filter (\<lambda>r. VendorNumber r = v \<and> Brand r = b) out)) =
               Fin (purchase_total p_Quantity (purchases db) v b) \<longleftrightarrow>
             length (filter (\<lambda>y. pp_Brand y = b) (purchase_prices db)) = 1 \<or>
             purchase_total p_Quantity (purchases db) v b = 0) \<and>
            (fl_sum (map totalpurchasedollars (filter (\<lambda>r. VendorNumber r = v \<and> Brand r = b) out)) =
               Fin (purchase_total p_Dollars (purchases db) v b) \<longleftrightarrow>
             length (filter (\<lambda>y. pp_Brand y = b) (purchase_prices db)) = 1 \<or>
             purchase_total p_Dollars (purchases db) v b = 0))"
proof -
  let ?T = "vendor_table (vendor_invoice db) (purchases db) (purchase_prices db) (sales db)"
  let ?pp = "purchase_prices db"
  have out: "out = map (clean_row to_float) ?T"
    by (rule cleaned_Inr [OF assms])
  have A: "\<exists>t\<in>set ?T. r = clean_row to_float t \<and>
              totalpurchasequantity r =
                Fin (\<Sum>x\<leftarrow>purchases db. real (times_counted ?pp x t) * p_Quantity x) \<and>
              totalpurchasedollars r =
                Fin (\<Sum>x\<leftarrow>purchases db. real (times_counted ?pp x t) * p_Dollars x)"
    if "r \<in> set out" for r
  proof -
    from that obtain t where t: "t \<in> set ?T" and r: "r = clean_row to_float t"
      by (auto simp: out)
    from vendor_table_counted [OF t] show ?thesis
      using t r by (auto simp: clean_row_totals)
  qed
  have B: "\<exists>t\<in>set ?T. clean_row to_float t \<in> set out \<and> vendor_key t = purchase_key (x, y) \<and>
               times_counted ?pp x t =
                 length (filter (\<lambda>z. pp_Brand z = p_Brand x \<and> pp_Volume z = pp_Volume y \<and>
                                      pp_Price z = pp_Price y) ?pp)"
    if "x \<in> set (purchases db)" "y \<in> set ?pp" "p_PurchasePrice x > 0" "pp_Brand y = p_Brand x"
    for x y
    using purchase_row_counted [OF that, of "vendor_invoice db" "sales db"]
    by (auto simp: out)
  have C: "times_counted ?pp x t = 0"
    if "p_PurchasePrice x \<le> 0 \<or> p_Brand x \<notin> pp_Brand ` set ?pp" for x t
    using that by (rule purchase_row_dropped)
  have q: "fl_sum (map totalpurchasequantity (filter (\<lambda>r. VendorNumber r = v \<and> Brand r = b) out)) =
           Fin (real (length (filter (\<lambda>y. pp_Brand y = b) ?pp)) *
                purchase_total p_Quantity (purchases db) v b)" for v b
    by (rule output_pair_total [OF assms, where vcol = vt_totalpurchasequantity
          and tot = ps_totalpurchasequantity])
       (simp_all add: clean_row_totals vendor_row_keys purchase_group_totals)
  have d: "fl_sum (map totalpurchasedollars (filter (\<lambda>r. VendorNumber r = v \<and> Brand r = b) out)) =
           Fin (real (length (filter (\<lambda>y. pp_Brand y = b) ?pp)) *
                purchase_total p_Dollars (purchases db) v b)" for v b
    by (rule output_pair_total [OF assms, where vcol = vt_totalpurchasedollars
          and tot = ps_totalpurchasedollars])
       (simp_all add: clean_row_totals vendor_row_keys purchase_group_totals)
  have D: "(fl_sum (map totalpurchasequantity (filter (\<lambda>r. VendorNumber r = v \<and> Brand r = b) out)) =
               Fin (purchase_total p_Quantity (purchases db) v b) \<longleftrightarrow>
             length (filter (\<lambda>y. pp_Brand y = b) ?pp) = 1 \<or>
             purchase_total p_Quantity (purchases db) v b = 0) \<and>
            (fl_sum (map totalpurchasedollars (filter (\<lambda>r. VendorNumber r = v \<and> Brand r = b) out)) =
               Fin (purchase_total p_Dollars (purchases db) v b) \<longleftrightarrow>
             length (filter (\<lambda>y. pp_Brand y = b) ?pp) = 1 \<or>
             purchase_total p_Dollars (purchases db) v b = 0)" for v b
    unfolding q d by (simp only: Fin_multiple_eq simp_thms)
  from A B C D show ?thesis
    by (intro conjI ballI allI impI) blast+
qed

theorem purchase_rows_counted_witness:
  "cleaned float_750 db_counted = Inr [row_6, row_5] \<and>
   purchase_6 \<in> set (purchases db_counted) \<and> price_A \<in> set (purchase_prices db_counted) \<and>
   p_PurchasePrice purchase_6 > 0 \<and> pp_Brand price_A = p_Brand purchase_6 \<and>
   (\<exists>t\<in>set (vendor_table (vendor_invoice db_counted) (purchases db_counted)
               (purchase_prices db_counted) (sales db_counted)).
      clean_row float_750 t \<in> set [row_6, row_5] \<and>
      vendor_key t = purchase_key (purchase_6, price_A) \<and>
      times_counted (purchase_prices db_counted) purchase_6 t = 2) \<and>
   purchase_Z \<in> set (purchases db_counted) \<and>
   p_Brand purchase_Z \<notin> pp_Brand ` set (purchase_prices db_counted) \<and>
   times_counted (purchase_prices db_counted) purchase_Z query_row_6 = 0 \<and>
   totalpurchasedollars row_6 = Fin 120 \<and>
   (\<Sum>x\<leftarrow>purchases db_counted.
       real (times_counted (purchase_prices db_counted) x query_row_6) * p_Dollars x) = 120"
proof -
  note T = purchase_rows_counted [OF cleaned_counted]
  have h: "purchase_6 \<in> set (purchases db_counted)" "price_A \<in> set (purchase_prices db_counted)"
    "p_PurchasePrice purchase_6 > 0" "pp_Brand price_A = p_Brand purchase_6"
    by (simp_all add: db_counted_def purchase_6_def price_A_def)
  have k: "length (filter (\<lambda>z. pp_Brand z = p_Brand purchase_6 \<and> pp_Volume z = pp_Volume price_A \<and>
              pp_Price z = pp_Price price_A) (purchase_prices db_counted)) = 2"
    by (simp add: db_counted_def purchase_6_def price_A_def)
  from T [THEN conjunct2, THEN conjunct1, rule_format, of purchase_6 price_A] h
  have B: "\<exists>t\<in>set (vendor_table (vendor_invoice db_counted) (purchases db_counted)
               (purchase_prices db_counted) (sales db_counted)).
      clean_row float_750 t \<in> set [row_6, row_5] \<and>
      vendor_key t = purchase_key (purchase_6, price_A) \<and>
      times_counted (purchase_prices db_counted) purchase_6 t = 2"
    unfolding k by blast
  have z: "purchase_Z \<in> set (purchases db_counted)"
    "p_Brand purchase_Z \<notin> pp_Brand ` set (purchase_prices db_counted)"
    by (simp_all add: db_counted_def purchase_Z_def)
  have q6: "query_row_6 \<in> set (vendor_table (vendor_invoice db_counted) (purchases db_counted)
               (purchase_prices db_counted) (sales db_counted))"
    by (simp add: query_counted)
  from T [THEN conjunct2, THEN conjunct2, THEN conjunct1, rule_format, of purchase_Z query_row_6] z q6
  have C: "times_counted (purchase_prices db_counted) purchase_Z query_row_6 = 0"
    by blast
  have s: "(\<Sum>x\<leftarrow>purchases db_counted.
       real (times_counted (purchase_prices db_counted) x query_row_6) * p_Dollars x) = 120"
    by (simp add: times_counted_def db_counted_def query_row_6_def purchase_key_def vendor_key_def)
  have r: "totalpurchasedollars row_6 = Fin 120"
    by (simp add: row_6_def)
  from cleaned_counted h B z C r s show ?thesis
    by (intro conjI)
qed

text \<open>Claim C9 as stated fails for a purchase row with \<^verbatim>\<open>PurchasePrice\<close> at most 0: the
  purchase of vendor 3 in the example has price 0, its brand matches one row of
  \<^verbatim>\<open>purchase_prices\<close> (\<open>k = 1\<close>), and it is counted in none of the four rows of the query's
  result; the output has no row of vendor 3.\<close>

theorem free_purchase_counterexample:
  "purchase_free \<in> set (purchases db_example) \<and> price_A \<in> set (purchase_prices db_example) \<and>
   length (filter (\<lambda>z. pp_Brand z = p_Brand purchase_free \<and> pp_Volume z = pp_Volume price_A \<and>
                        pp_Price z = pp_Price price_A) (purchase_prices db_example)) = 1 \<and>
   map (times_counted (purchase_prices db_example) purchase_free)
     (vendor_table (vendor_invoice db_example) (purchases db_example) (purchase_prices db_example)
        (sales db_example)) = [0, 0, 0, 0] \<and>
   cleaned float_750 db_example = Inr [row_1A, row_1B, row_2A, row_4B] \<and>
   \<not> list_ex (\<lambda>r. VendorNumber r = 3) [row_1A, row_1B, row_2A, row_4B]"
proof -
  have 1: "purchase_free \<in> set (purchases db_example)" "price_A \<in> set (purchase_prices db_example)"
    "length (filter (\<lambda>z. pp_Brand z = p_Brand purchase_free \<and> pp_Volume z = pp_Volume price_A \<and>
                        pp_Price z = pp_Price price_A) (purchase_prices db_example)) = 1"
    by (simp_all add: db_example_def purchase_free_def price_A_def)
  have 0: "times_counted (purchase_prices db_example) purchase_free t = 0" for t
    by (rule purchase_row_dropped) (simp add: purchase_free_def)
  have "length (vendor_table (vendor_invoice db_example) (purchases db_example)
          (purchase_prices db_example) (sales db_example)) = 4"
    using cleaned_Inr [OF cleaned_example, THEN arg_cong, of length] by simp
  then have 2: "map (times_counted (purchase_prices db_example) purchase_free)
     (vendor_table (vendor_invoice db_example) (purchases db_example) (purchase_prices db_example)
        (sales db_example)) = [0, 0, 0, 0]"
    by (auto simp: 0 length_Suc_conv numeral_eq_Suc)
  have 3: "\<not> list_ex (\<lambda>r. VendorNumber r = 3) [row_1A, row_1B, row_2A, row_4B]"
    by (simp add: row_defs)
  from 1 2 cleaned_example 3 show ?thesis
    by (intro conjI)
qed

subsection \<open>The null name\<close>

text \<open>\<^verbatim>\<open>fillna(0)\<close> replaces every null of every column by 0 and leaves every other value
  as it is.\<close>

lemma fillna_every_column:
  "VendorNumber (fillna r) = VendorNumber r"
  "Brand (fillna r) = Brand r"
  "VendorName (fillna r) = (if VendorName r = Flt NaN then Flt (Fin 0) else VendorName r)"
  "Description (fillna r) = (if Description r = Flt NaN then Flt (Fin 0) else Description r)"
  "Volume (fillna r) = (if Volume r = Flt NaN then Flt (Fin 0) else Volume r)"
  "PurchasePrice (fillna r) = (if PurchasePrice r = NaN then Fin 0 else PurchasePrice r)"
  "actualprice (fillna r) = (if actualprice r = NaN then Fin 0 else actualprice r)"
  "totalpurchasedollars (fillna r) =
     (if totalpurchasedollars r = NaN then Fin 0 else totalpurchasedollars r)"
  "totalpurchasequantity (fillna r) =
     (if totalpurchasequantity r = NaN then Fin 0 else totalpurchasequantity r)"
  "freightcost (fillna r) = (if freightcost r = NaN then Fin 0 else freightcost r)"
  "totalsalesprice (fillna r) = (if totalsalesprice r = NaN then Fin 0 else totalsalesprice r)"
  "totalsalesquantity (fillna r) =
     (if totalsalesquantity r = NaN then Fin 0 else totalsalesquantity r)"
  "totalsalesdollars (fillna r) =
     (if totalsalesdollars r = NaN then Fin 0 else totalsalesdollars r)"
  "totalexcisetax (fillna r) = (if totalexcisetax r = NaN then Fin 0 else totalexcisetax r)"
  by (simp_all add: fillna_def fillna_fl_def fillna_cell_def)

text \<open>The trim undoes the fill for \<^verbatim>\<open>VendorName\<close>. Whenever the script completes, a
  purchase group whose \<^verbatim>\<open>VendorName\<close> is null has an output row whose persisted
  \<^verbatim>\<open>VendorName\<close> is NaN, and no persisted \<^verbatim>\<open>VendorName\<close> is 0; a null
  \<^verbatim>\<open>Description\<close> is persisted as 0.\<close>

lemma null_vendor_name_lost:
  assumes "vendor_cleaning_script to_float db = Inr db'"
    and "x \<in> set (purchases db)" "p_VendorName x = None" "p_PurchasePrice x > 0"
    and "y \<in> set (purchase_prices db)" "pp_Brand y = p_Brand x"
  shows "\<exists>out. vendor_cleaned db' = Some out \<and>
            (\<exists>r\<in>set out. VendorNumber r = p_VendorNumber x \<and> Brand r = p_Brand x \<and>
                           VendorName r = Flt NaN) \<and>
            (\<forall>r\<in>set out. VendorName r \<noteq> Flt (Fin 0))"
proof -
  from assms(1) obtain out where out: "cleaned to_float db = Inr out"
    and db': "db' = db\<lparr>vendor_cleaned := Some out\<rparr>"
    by (auto simp: script_Inr)
  have "str_strip (fillna_cell (of_sql_text (p_VendorName x))) = Flt NaN"
    by (simp add: assms(3) of_sql_text_def fillna_cell_def str_strip_def)
  with purchase_has_row [OF out assms(2) assms(4-6)]
  have 1: "\<exists>r\<in>set out. VendorNumber r = p_VendorNumber x \<and> Brand r = p_Brand x \<and> VendorName r = Flt NaN"
    by simp
  have 2: "\<forall>r\<in>set out. VendorName r \<noteq> Flt (Fin 0)"
  proof
    fix r assume "r \<in> set out"
    with out obtain ps where "r = clean_row to_float (vendor_row (vendor_invoice db) (sales db) ps)"
      by (rule cleaned_row_cases)
    then show "VendorName r \<noteq> Flt (Fin 0)"
      by (simp add: clean_row_keys str_strip_not_zero)
  qed
  from 1 2 db' show ?thesis
    by simp
qed

lemma null_description_kept:
  "Description (clean_row to_float t) = (case vt_Description t of None \<Rightarrow> Flt (Fin 0) | Some d \<Rightarrow> Str d)"
  by (simp add: clean_row_keys of_sql_text_def fillna_cell_def split: option.splits)

lemma all_names_null_raises:
  assumes "vendor_table (vendor_invoice db) (purchases db) (purchase_prices db) (sales db) \<noteq> []"
    and "\<forall>t\<in>set (vendor_table (vendor_invoice db) (purchases db) (purchase_prices db) (sales db)).
           vt_VendorName t = None"
  shows "\<exists>e. vendor_cleaning_script to_float db = Inl e"
proof -
  have "\<not> (\<exists>out. cleaned to_float db = Inr out)"
    using assms by (simp add: cleaned_completes)
  then show ?thesis
    by (cases "cleaned to_float db") (simp_all add: vendor_cleaning_script_def)
qed

text \<open>Claim C6: the code diverges from it. In the example the purchase group of vendor 2 has
  a null \<^verbatim>\<open>VendorName\<close>. \<^verbatim>\<open>fillna\<close> puts 0 for it, as the claim says, but the trim that
  follows turns the 0, which is not a string, into NaN: the persisted \<^verbatim>\<open>VendorName\<close> of
  that group is NaN and not the 0 of the claim, while the null \<^verbatim>\<open>Description\<close> of vendor
  4 is persisted as 0. Where no group has a name, the \<^verbatim>\<open>.str\<close> accessor raises and
  nothing is persisted.\<close>

theorem null_vendor_name_diverges:
  "fillna_cell (of_sql_text None) = Flt (Fin 0) \<and>
   str_strip (fillna_cell (of_sql_text None)) = Flt NaN \<and>
   vendor_cleaning_script float_750 db_example =
     Inr (db_example\<lparr>vendor_cleaned := Some [row_1A, row_1B, row_2A, row_4B]\<rparr>) \<and>
   VendorNumber row_2A = 2 \<and> VendorName row_2A = Flt NaN \<and>
   VendorNumber row_4B = 4 \<and> Description row_4B = Flt (Fin 0) \<and>
   vendor_cleaning_script float_750 db_nameless = Inl AttributeError"
proof -
  have "fillna_cell (of_sql_text None) = Flt (Fin 0)"
    "str_strip (fillna_cell (of_sql_text None)) = Flt NaN"
    by (simp_all add: of_sql_text_def fillna_cell_def str_strip_def)
  moreover have "VendorNumber row_2A = 2" "VendorName row_2A = Flt NaN"
    "VendorNumber row_4B = 4" "Description row_4B = Flt (Fin 0)"
    by (simp_all add: row_defs)
  ultimately show ?thesis
    using script_example script_nameless by (intro conjI)
qed

end
